theory Spec2Isabelle
  imports Main "HOL-Library.Word"
begin

unbundle bit_operations_syntax

section \<open>Data model of the BFD session engine (proto/bfd/bfd.c)\<close>

type_synonym u8 = "8 word"
type_synonym u32 = "32 word"

text \<open>\<open>btime\<close> is a signed 64-bit count of microseconds; the sums formed here
  (a timestamp plus a 32-bit interval) stay far from its range, so it is an integer.\<close>

type_synonym btime = int

text \<open>The constants of bfd.h. The header is not among the sources; the state numbering
  is the index order of \<open>bfd_state_names\<close> in bfd.c, the diagnostic codes, the poll
  bits and the packet flags are those of RFC 5880 and of the wire format in the
  specification (byte 1: Poll is bit 5, Final is bit 4).\<close>

definition BFD_STATE_ADMIN_DOWN :: u8 where "BFD_STATE_ADMIN_DOWN = 0"
definition BFD_STATE_DOWN :: u8 where "BFD_STATE_DOWN = 1"
definition BFD_STATE_INIT :: u8 where "BFD_STATE_INIT = 2"
definition BFD_STATE_UP :: u8 where "BFD_STATE_UP = 3"

definition BFD_DIAG_NOTHING :: u8 where "BFD_DIAG_NOTHING = 0"
definition BFD_DIAG_TIMEOUT :: u8 where "BFD_DIAG_TIMEOUT = 1"
definition BFD_DIAG_NEIGHBOR_DOWN :: u8 where "BFD_DIAG_NEIGHBOR_DOWN = 3"

definition BFD_POLL_TX :: u8 where "BFD_POLL_TX = 1"
definition BFD_POLL_RX :: u8 where "BFD_POLL_RX = 2"

definition BFD_FLAG_POLL :: u8 where "BFD_FLAG_POLL = 32"
definition BFD_FLAG_FINAL :: u8 where "BFD_FLAG_FINAL = 16"

datatype ip_addr = IP4 u32 | IP6 "128 word"

fun ipa_is_ip4 :: "ip_addr \<Rightarrow> bool" where
  "ipa_is_ip4 (IP4 _) = True"
| "ipa_is_ip4 (IP6 _) = False"

subsection \<open>Timers\<close>

text \<open>Modelled from the spec: the timer of lib/timer.c (\<open>tm_set\<close>, \<open>tm_start\<close>,
  \<open>tm_stop\<close>, \<open>tm_active\<close>), which is not among the sources. A timer is either
  stopped or armed with a deadline, and carries the recurrence and randomisation amounts
  that the session code stores into it.\<close>

record timer =
  expires :: "btime option"
  recurrent :: u32
  randomize :: u32

definition tm_new_init :: "u32 \<Rightarrow> u32 \<Rightarrow> timer" where
  "tm_new_init rec rand = \<lparr>expires = None, recurrent = rec, randomize = rand\<rparr>"

definition tm_set :: "timer \<Rightarrow> btime \<Rightarrow> timer" where
  "tm_set t when = t\<lparr>expires := Some when\<rparr>"

definition tm_start :: "timer \<Rightarrow> btime \<Rightarrow> btime \<Rightarrow> timer" where
  "tm_start t after now = tm_set t (now + max after 0)"

definition tm_stop :: "timer \<Rightarrow> timer" where
  "tm_stop t = t\<lparr>expires := None\<rparr>"

definition tm_active :: "timer \<Rightarrow> bool" where
  "tm_active t = (expires t \<noteq> None)"

subsection \<open>Configuration\<close>

text \<open>\<open>struct bfd_options\<close>, \<open>struct bfd_iface_config\<close> and
  \<open>struct bfd_session_config\<close>, with the fields \<open>bfd_merge_options\<close> reads. The
  password list is a pointer in all three, and stays one here: the address of the list,
  0 for the null pointer. Two lists with the same keys at different addresses are
  different values.

  The options of a request are compared byte by byte (\<open>memcmp\<close> in
  \<open>bfd_update_request\<close>), so \<open>bfd_options\<close> keeps every field as the bytes it
  occupies: three 32-bit words, four single bytes (the two flags among them, which the
  code reads as truth values but compares as bytes) and the pointer. The declaration
  is in bfd.h, which is not among the sources; the structure is taken to hold the
  eight fields that bfd.c reads, in this order. Three words and four bytes fill 16
  bytes and the pointer follows aligned, so such a structure has no padding, and two
  of them are equal as bytes exactly when their fields are equal. The structure
  assignment \<open>req->opts = *opts\<close> copies every field.\<close>

type_synonym list_ptr = nat

record bfd_options =
  opt_min_rx_int :: u32
  opt_min_tx_int :: u32
  opt_idle_tx_int :: u32
  opt_multiplier :: u8
  opt_passive :: u8
  opt_passive_set :: u8
  opt_auth_type :: u8
  opt_passwords :: list_ptr

record bfd_iface_config =
  ifc_min_rx_int :: u32
  ifc_min_tx_int :: u32
  ifc_idle_tx_int :: u32
  ifc_multiplier :: u8
  ifc_passive :: bool
  ifc_auth_type :: u8
  ifc_passwords :: list_ptr

record bfd_session_config =
  cf_min_rx_int :: u32
  cf_min_tx_int :: u32
  cf_idle_tx_int :: u32
  cf_multiplier :: u8
  cf_passive :: bool
  cf_auth_type :: u8
  cf_passwords :: list_ptr

text \<open>The GNU \<open>a ?: b\<close> of the source: \<open>a\<close> unless it is zero.\<close>

definition elvis :: "'a::zero \<Rightarrow> 'a \<Rightarrow> 'a" where
  "elvis a b = (if a \<noteq> 0 then a else b)"

definition bfd_merge_options :: "bfd_iface_config \<Rightarrow> bfd_options \<Rightarrow> bfd_session_config" where
  "bfd_merge_options c opts =
     \<lparr>cf_min_rx_int = elvis (opt_min_rx_int opts) (ifc_min_rx_int c),
      cf_min_tx_int = elvis (opt_min_tx_int opts) (ifc_min_tx_int c),
      cf_idle_tx_int = elvis (opt_idle_tx_int opts) (ifc_idle_tx_int c),
      cf_multiplier = elvis (opt_multiplier opts) (ifc_multiplier c),
      cf_passive = (if opt_passive_set opts \<noteq> 0 then opt_passive opts \<noteq> 0 else ifc_passive c),
      cf_auth_type = elvis (opt_auth_type opts) (ifc_auth_type c),
      cf_passwords = elvis (opt_passwords opts) (ifc_passwords c)\<rparr>"

subsection \<open>Sessions\<close>

text \<open>\<open>struct bfd_session\<close>. One-byte fields used as truth values are booleans.
  \<open>notify_linked\<close> stands for \<open>NODE_VALID(&s->n)\<close>: the session is on the
  engine's notify list. \<open>request_list\<close> holds the handles of the attached requests.
  Of the interface binding \<open>s->ifa\<close> the session code reads two fields, kept here as
  \<open>ifa_bfd\<close> (the handle of the owning engine, \<open>s->ifa->bfd\<close>) and \<open>ifa_cf\<close>
  (the interface configuration, \<open>s->ifa->cf\<close>).
  The last two fields are not in the structure: they record the effects the session
  code has outside it, the kicks of the notify pipe and the control packets handed to
  \<open>bfd_send_ctl\<close> (each with its \<open>final\<close> argument).\<close>

record bfd_session =
  addr :: ip_addr
  ifindex :: nat
  ifa_bfd :: nat
  ifa_cf :: bfd_iface_config
  "passive" :: bool
  poll_active :: u8
  poll_scheduled :: u8
  loc_state :: u8
  rem_state :: u8
  loc_diag :: u8
  rem_id :: u32
  cf :: bfd_session_config
  des_min_tx_int :: u32
  des_min_tx_new :: u32
  req_min_rx_int :: u32
  req_min_rx_new :: u32
  rem_min_tx_int :: u32
  rem_min_rx_int :: u32
  rem_demand_mode :: bool
  detect_mult :: u8
  rem_detect_mult :: u8
  last_tx :: btime
  last_rx :: btime
  tx_timer :: timer
  hold_timer :: timer
  request_list :: "nat list"
  last_state_change :: btime
  notify_running :: bool
  rx_csn_known :: bool
  notify_linked :: bool
  notify_kicks :: nat
  ctl_sent :: "bool list"

text \<open>Modelled from the spec: \<open>bfd_send_ctl\<close> of packets.c, which is not among the
  sources. It encodes and sends one control packet for the session; of the session it
  changes nothing the state machine reads, so here it only records the packet.\<close>

definition bfd_send_ctl :: "bfd_session \<Rightarrow> bool \<Rightarrow> bfd_session" where
  "bfd_send_ctl s final = s\<lparr>ctl_sent := ctl_sent s @ [final]\<rparr>"

section \<open>The session state machine\<close>

definition bfd_session_update_tx_interval :: "bfd_session \<Rightarrow> bfd_session" where
  "bfd_session_update_tx_interval s =
     (let tx_int = max (des_min_tx_int s) (rem_min_rx_int s);
          tx_int_l = tx_int - (tx_int div 4);
          tx_int_h = tx_int - (tx_int div 10);
          t = (tx_timer s)\<lparr>recurrent := tx_int_l, randomize := tx_int_h - tx_int_l\<rparr>
      in if last_tx s = 0 then s\<lparr>tx_timer := t\<rparr>
         else s\<lparr>tx_timer := tm_set t (last_tx s + uint tx_int_l)\<rparr>)"

definition bfd_session_update_detection_time :: "bfd_session \<Rightarrow> bool \<Rightarrow> btime \<Rightarrow> bfd_session" where
  "bfd_session_update_detection_time s kick now =
     (let timeout = uint (max (req_min_rx_int s) (rem_min_tx_int s)) * uint (rem_detect_mult s);
          s1 = (if kick then s\<lparr>last_rx := now\<rparr> else s)
      in if last_rx s1 = 0 then s1
         else s1\<lparr>hold_timer := tm_set (hold_timer s1) (last_rx s1 + timeout)\<rparr>)"

definition bfd_session_control_tx_timer :: "bfd_session \<Rightarrow> bool \<Rightarrow> btime \<Rightarrow> bfd_session" where
  "bfd_session_control_tx_timer s reset now =
     (let stop = s\<lparr>tx_timer := tm_stop (tx_timer s), last_tx := 0\<rparr>
      in if passive s \<and> rem_id s = 0 then stop
         else if rem_demand_mode s \<and> poll_active s = 0 \<and>
                 loc_state s = BFD_STATE_UP \<and> rem_state s = BFD_STATE_UP then stop
         else if rem_min_rx_int s = 0 then stop
         else if reset \<or> \<not> tm_active (tx_timer s)
           then s\<lparr>last_tx := 0, tx_timer := tm_start (tx_timer s) 0 now\<rparr>
         else s)"

definition bfd_session_request_poll :: "bfd_session \<Rightarrow> u8 \<Rightarrow> btime \<Rightarrow> bfd_session" where
  "bfd_session_request_poll s request now =
     (if rem_id s = 0 then s
      else let s1 = s\<lparr>poll_scheduled := poll_scheduled s OR request\<rparr>
           in if poll_active s1 \<noteq> 0 then s1
              else bfd_session_control_tx_timer
                     (s1\<lparr>poll_active := poll_scheduled s1, poll_scheduled := 0\<rparr>) True now)"

definition bfd_session_terminate_poll :: "bfd_session \<Rightarrow> bfd_session" where
  "bfd_session_terminate_poll s =
     (let poll_done = poll_active s AND NOT (poll_scheduled s);
          s1 = (if poll_done AND BFD_POLL_TX \<noteq> 0
                then s\<lparr>des_min_tx_int := des_min_tx_new s\<rparr> else s);
          s2 = (if poll_done AND BFD_POLL_RX \<noteq> 0
                then s1\<lparr>req_min_rx_int := req_min_rx_new s1\<rparr> else s1)
      in s2\<lparr>poll_active := poll_scheduled s2, poll_scheduled := 0\<rparr>)"

definition bfd_session_set_min_tx :: "bfd_session \<Rightarrow> u32 \<Rightarrow> btime \<Rightarrow> bfd_session" where
  "bfd_session_set_min_tx s val now =
     (if val = des_min_tx_new s then s
      else let s1 = s\<lparr>des_min_tx_new := val\<rparr>;
               s2 = (if loc_state s1 \<noteq> BFD_STATE_UP \<or> val < des_min_tx_int s1
                     then bfd_session_update_tx_interval (s1\<lparr>des_min_tx_int := val\<rparr>)
                     else s1)
           in bfd_session_request_poll s2 BFD_POLL_TX now)"

definition bfd_session_set_min_rx :: "bfd_session \<Rightarrow> u32 \<Rightarrow> btime \<Rightarrow> bfd_session" where
  "bfd_session_set_min_rx s val now =
     (if val = req_min_rx_new s then s
      else let s1 = s\<lparr>req_min_rx_new := val\<rparr>;
               s2 = (if loc_state s1 \<noteq> BFD_STATE_UP \<or> val > req_min_rx_int s1
                     then bfd_session_update_detection_time (s1\<lparr>req_min_rx_int := val\<rparr>) False now
                     else s1)
           in bfd_session_request_poll s2 BFD_POLL_RX now)"

definition bfd_session_update_state :: "bfd_session \<Rightarrow> u8 \<Rightarrow> u8 \<Rightarrow> btime \<Rightarrow> bfd_session" where
  "bfd_session_update_state s st dg now =
     (let old_state = loc_state s
      in if st = old_state then s
         else let notify = \<not> notify_linked s;
                  s1 = s\<lparr>loc_state := st, loc_diag := dg, last_state_change := now,
                         notify_linked := True\<rparr>;
                  s2 = (if st = BFD_STATE_UP
                        then bfd_session_set_min_tx s1 (cf_min_tx_int (cf s1)) now else s1);
                  s3 = (if old_state = BFD_STATE_UP
                        then bfd_session_set_min_tx s2 (cf_idle_tx_int (cf s2)) now else s2)
              in if notify then s3\<lparr>notify_kicks := notify_kicks s3 + 1\<rparr> else s3)"

text \<open>The \<open>switch\<close> of \<open>bfd_session_process_ctl\<close>: the next state and the diagnostic,
  where next state 0 stands for no transition, as in the source.\<close>

definition bfd_next_state :: "u8 \<Rightarrow> u8 \<Rightarrow> u8 \<times> u8" where
  "bfd_next_state loc rem =
     (if loc = BFD_STATE_DOWN then
        (if rem = BFD_STATE_DOWN then (BFD_STATE_INIT, BFD_DIAG_NOTHING)
         else if rem = BFD_STATE_INIT then (BFD_STATE_UP, BFD_DIAG_NOTHING)
         else (0, BFD_DIAG_NOTHING))
      else if loc = BFD_STATE_INIT then
        (if rem = BFD_STATE_ADMIN_DOWN then (BFD_STATE_DOWN, BFD_DIAG_NEIGHBOR_DOWN)
         else if rem \<ge> BFD_STATE_INIT then (BFD_STATE_UP, BFD_DIAG_NOTHING)
         else (0, BFD_DIAG_NOTHING))
      else if loc = BFD_STATE_UP then
        (if rem \<le> BFD_STATE_DOWN then (BFD_STATE_DOWN, BFD_DIAG_NEIGHBOR_DOWN)
         else (0, BFD_DIAG_NOTHING))
      else (0, BFD_DIAG_NOTHING))"

definition bfd_session_process_ctl ::
  "bfd_session \<Rightarrow> u8 \<Rightarrow> u32 \<Rightarrow> u32 \<Rightarrow> btime \<Rightarrow> bfd_session" where
  "bfd_session_process_ctl s flags old_tx_int old_rx_int now =
     (let s1 = (if poll_active s \<noteq> 0 \<and> flags AND BFD_FLAG_FINAL \<noteq> 0
                then bfd_session_terminate_poll s else s);
          s2 = (if des_min_tx_int s1 \<noteq> old_tx_int \<or> rem_min_rx_int s1 \<noteq> old_rx_int
                then bfd_session_update_tx_interval s1 else s1);
          s3 = bfd_session_update_detection_time s2 True now
      in if loc_state s3 = BFD_STATE_ADMIN_DOWN then s3
         else let (next_state, diag) = bfd_next_state (loc_state s3) (rem_state s3);
                  s4 = (if next_state \<noteq> 0
                        then bfd_session_update_state s3 next_state diag now else s3);
                  s5 = bfd_session_control_tx_timer s4 False now
              in if flags AND BFD_FLAG_POLL \<noteq> 0 then bfd_send_ctl s5 True else s5)"

definition bfd_session_timeout :: "bfd_session \<Rightarrow> btime \<Rightarrow> bfd_session" where
  "bfd_session_timeout s now =
     (let s1 = s\<lparr>rem_state := BFD_STATE_DOWN, rem_id := 0, rem_min_tx_int := 0,
                 rem_min_rx_int := 1, rem_demand_mode := False, rem_detect_mult := 0,
                 rx_csn_known := False, poll_active := 0, poll_scheduled := 0\<rparr>;
          s2 = bfd_session_update_state s1 BFD_STATE_DOWN BFD_DIAG_TIMEOUT now
      in bfd_session_control_tx_timer s2 True now)"

definition bfd_tx_timer_hook :: "bfd_session \<Rightarrow> btime \<Rightarrow> bfd_session" where
  "bfd_tx_timer_hook s now = bfd_send_ctl (s\<lparr>last_tx := now\<rparr>) False"

definition bfd_hold_timer_hook :: "bfd_session \<Rightarrow> btime \<Rightarrow> bfd_session" where
  "bfd_hold_timer_hook s now = bfd_session_timeout s now"

text \<open>The session that \<open>bfd_add_session\<close> builds between \<open>sl_allocz\<close> and its
  return: the slab hands out zeroed memory, the configuration is merged from the
  interface and the request, and both timers are created stopped.\<close>

definition bfd_new_session ::
  "nat \<Rightarrow> ip_addr \<Rightarrow> nat \<Rightarrow> bfd_iface_config \<Rightarrow> bfd_options \<Rightarrow> btime \<Rightarrow> bfd_session" where
  "bfd_new_session p a ifi ic opts now =
     (let c = bfd_merge_options ic opts;
          s = \<lparr>addr = a, ifindex = ifi, ifa_bfd = p, ifa_cf = ic, passive = cf_passive c,
               poll_active = 0, poll_scheduled = 0,
               loc_state = BFD_STATE_DOWN, rem_state = BFD_STATE_DOWN, loc_diag = 0,
               rem_id = 0, cf = c,
               des_min_tx_int = cf_idle_tx_int c, des_min_tx_new = cf_idle_tx_int c,
               req_min_rx_int = cf_min_rx_int c, req_min_rx_new = cf_min_rx_int c,
               rem_min_tx_int = 0, rem_min_rx_int = 1, rem_demand_mode = False,
               detect_mult = cf_multiplier c, rem_detect_mult = 0,
               last_tx = 0, last_rx = 0,
               tx_timer = tm_new_init 0 0, hold_timer = tm_new_init 0 0,
               request_list = [], last_state_change = 0, notify_running = False,
               rx_csn_known = False, notify_linked = False,
               notify_kicks = 0, ctl_sent = []\<rparr>;
          s1 = bfd_session_control_tx_timer (bfd_session_update_tx_interval s) True now
      in s1\<lparr>request_list := [], last_state_change := now\<rparr>)"

section \<open>Requests\<close>

text \<open>What a subscriber's callback may do to the broker: return, or release its own
  request (\<open>rfree\<close>) before it returns.\<close>

datatype hook_fn = Hook_observe | Hook_release

text \<open>\<open>struct bfd_request\<close>. Interfaces and the VRF are pointers in the source and
  handles here (\<open>None\<close> for the null pointer); an interface's handle is its index.
  \<open>session\<close> is the handle of the session the request is attached to.\<close>

record bfd_request =
  req_addr :: ip_addr
  req_local :: ip_addr
  req_iface :: "nat option"
  req_vrf :: "nat option"
  opts :: bfd_options
  hook :: "hook_fn option"
  data :: nat
  session :: "nat option"
  state :: u8
  diag :: u8
  old_state :: u8
  down :: bool

text \<open>\<open>bfd_request_notify\<close>: the updated request, and the hook the function calls
  (\<open>None\<close> when it calls none).\<close>

definition bfd_request_notify ::
  "bfd_request \<Rightarrow> u8 \<Rightarrow> u8 \<Rightarrow> u8 \<Rightarrow> bfd_request \<times> hook_fn option" where
  "bfd_request_notify req st remote dg =
     (let old = state req
      in if st = old then (req, None)
         else (req\<lparr>state := st, diag := dg, old_state := old,
                    down := (old = BFD_STATE_UP \<and> st = BFD_STATE_DOWN \<and>
                             remote \<noteq> BFD_STATE_ADMIN_DOWN)\<rparr>,
               hook req))"

section \<open>Reconfiguration and the events of a session's life\<close>

text \<open>\<open>bfd_reconfigure_session\<close>, given the store of requests in which the head of
  the session's request list is looked up. A handle on the list always names a stored
  request; the model returns the session unchanged otherwise.\<close>

definition bfd_reconfigure_session ::
  "(nat \<Rightarrow> bfd_request option) \<Rightarrow> bfd_session \<Rightarrow> btime \<Rightarrow> bfd_session" where
  "bfd_reconfigure_session reqs s now =
     (case request_list s of
        [] \<Rightarrow> s
      | h # _ \<Rightarrow>
        (case reqs h of
           None \<Rightarrow> s
         | Some req \<Rightarrow>
           (let s1 = s\<lparr>cf := bfd_merge_options (ifa_cf s) (opts req)\<rparr>;
                tx = (if loc_state s1 = BFD_STATE_UP
                      then cf_min_tx_int (cf s1) else cf_idle_tx_int (cf s1));
                s2 = bfd_session_set_min_tx s1 tx now;
                s3 = bfd_session_set_min_rx s2 (cf_min_rx_int (cf s2)) now;
                s4 = s3\<lparr>detect_mult := cf_multiplier (cf s3), passive := cf_passive (cf s3)\<rparr>
            in bfd_session_control_tx_timer s4 False now)))"

text \<open>Modelled from the spec: the fields of a validated control packet that the receive
  path of packets.c (not among the sources) hands to the session, and that path itself.
  It keeps the previous \<open>des_min_tx_int\<close> and \<open>rem_min_rx_int\<close>, stores the packet's
  remote fields in the session and calls \<open>bfd_session_process_ctl\<close>. The Demand flag is
  bit 1 of the flag byte.\<close>

record bfd_ctl_packet =
  pkt_state :: u8
  pkt_flags :: u8
  pkt_detect_mult :: u8
  pkt_snd_id :: u32
  pkt_des_min_tx_int :: u32
  pkt_req_min_rx_int :: u32

definition BFD_FLAG_DEMAND :: u8 where "BFD_FLAG_DEMAND = 2"

definition bfd_rx_ctl :: "bfd_session \<Rightarrow> bfd_ctl_packet \<Rightarrow> btime \<Rightarrow> bfd_session" where
  "bfd_rx_ctl s pkt now =
     (let old_tx_int = des_min_tx_int s;
          old_rx_int = rem_min_rx_int s;
          s1 = s\<lparr>rem_id := pkt_snd_id pkt, rem_state := pkt_state pkt,
                 rem_demand_mode := (pkt_flags pkt AND BFD_FLAG_DEMAND \<noteq> 0),
                 rem_min_tx_int := pkt_des_min_tx_int pkt,
                 rem_min_rx_int := pkt_req_min_rx_int pkt,
                 rem_detect_mult := pkt_detect_mult pkt\<rparr>
      in bfd_session_process_ctl s1 (pkt_flags pkt) old_tx_int old_rx_int now)"

text \<open>The states a session can be in between two events. A session is created by
  \<open>bfd_add_session\<close>; then control packets arrive, the two timers fire, the session
  is reconfigured (possibly after its interface configuration changed), requests are
  attached and detached, and the notifier unlinks it from the notify list and sets and
  clears \<open>notify_running\<close>. The timer loop of lib/timer.c is not among the sources:
  before it calls the hook it stops the timer or arms it again, and the relation admits
  either outcome.\<close>

inductive reachable :: "bfd_session \<Rightarrow> bool" where
  created: "reachable (bfd_new_session p a ifi ic ro now)"
| received: "reachable s \<Longrightarrow> reachable (bfd_rx_ctl s pkt now)"
| expired: "reachable s \<Longrightarrow> tm_active (hold_timer s) \<Longrightarrow>
     reachable (bfd_hold_timer_hook (s\<lparr>hold_timer := tm_stop (hold_timer s)\<rparr>) now)"
| transmitted: "reachable s \<Longrightarrow> tm_active (tx_timer s) \<Longrightarrow>
     reachable (bfd_tx_timer_hook (s\<lparr>tx_timer := (tx_timer s)\<lparr>expires := e\<rparr>\<rparr>) now)"
| reconfigured: "reachable s \<Longrightarrow> reachable (bfd_reconfigure_session reqs (s\<lparr>ifa_cf := ic\<rparr>) now)"
| attached: "reachable s \<Longrightarrow> reachable (s\<lparr>request_list := rl\<rparr>)"
| notified: "reachable s \<Longrightarrow> reachable (s\<lparr>notify_linked := False, notify_running := b\<rparr>)"

text \<open>The two invariants of the specification: when the TX timer must be stopped, and
  how the current and the desired intervals are ordered.\<close>

definition tx_timer_inv :: "bfd_session \<Rightarrow> bool" where
  "tx_timer_inv s \<longleftrightarrow>
     (rem_min_rx_int s = 0 \<longrightarrow> \<not> tm_active (tx_timer s)) \<and>
     (passive s \<and> rem_id s = 0 \<longrightarrow> \<not> tm_active (tx_timer s))"

definition interval_inv :: "bfd_session \<Rightarrow> bool" where
  "interval_inv s \<longleftrightarrow>
     des_min_tx_int s \<le> des_min_tx_new s \<and> req_min_rx_int s \<ge> req_min_rx_new s"

text \<open>The interface configuration used when no pattern matches, \<open>bfd_default_iface\<close>,
  and the options of a request created without any. The four defaults are macros of
  bfd.h, which is not among the sources; the values here are the customary ones (10 ms,
  100 ms, 1 s, multiplier 5) and serve the examples only: no property depends on them.\<close>

definition bfd_default_iface :: bfd_iface_config where
  "bfd_default_iface =
     \<lparr>ifc_min_rx_int = 10000, ifc_min_tx_int = 100000, ifc_idle_tx_int = 1000000,
      ifc_multiplier = 5, ifc_passive = False, ifc_auth_type = 0, ifc_passwords = 0\<rparr>"

definition no_options :: bfd_options where
  "no_options =
     \<lparr>opt_min_rx_int = 0, opt_min_tx_int = 0, opt_idle_tx_int = 0, opt_multiplier = 0,
      opt_passive = 0, opt_passive_set = 0, opt_auth_type = 0, opt_passwords = 0\<rparr>"

section \<open>The request broker\<close>

text \<open>The part of \<open>struct bfd_proto\<close> and of its configuration that the broker reads.
  \<open>iface_config\<close> is \<open>bfd_find_iface_config\<close> for the engine's current configuration;
  \<open>session_hash\<close> holds the handles of the engine's sessions, \<open>notify_list\<close> those
  of the sessions with a pending notification.\<close>

record bfd_proto =
  vrf_set :: bool
  vrf :: "nat option"
  accept_ipv4 :: bool
  accept_ipv6 :: bool
  accept_direct :: bool
  accept_multihop :: bool
  iface_config :: "nat option \<Rightarrow> bfd_iface_config"
  session_hash :: "nat list"
  notify_list :: "nat list"

text \<open>What the broker does that a subscriber can observe: a call of a request's hook,
  with the request's handle and the \<open>state\<close>, \<open>diag\<close>, \<open>old_state\<close> and \<open>down\<close> it
  reads there, and a call of \<open>bfd_reconfigure_session\<close>, with the session's handle.\<close>

datatype event = Hook_called nat u8 u8 u8 bool | Reconfigure_called nat

text \<open>The objects the broker works on, each kind in a store indexed by handles
  (the pointers of the source): the engines, of which \<open>bfd_proto_list\<close> lists the
  running ones in order, the sessions of all engines, the requests, and the
  process-wide wait list. \<open>next_session\<close> is the handle the session slab hands out
  next; \<open>events\<close> is the log of observable calls.\<close>

record bfd_world =
  bfd_proto_list :: "nat list"
  protos :: "nat \<Rightarrow> bfd_proto"
  sessions :: "nat \<Rightarrow> bfd_session option"
  requests :: "nat \<Rightarrow> bfd_request option"
  bfd_wait_list :: "nat list"
  next_session :: nat
  events :: "event list"

definition bfd_find_session_by_addr :: "bfd_world \<Rightarrow> nat \<Rightarrow> ip_addr \<Rightarrow> nat \<Rightarrow> nat option" where
  "bfd_find_session_by_addr w p a ifi =
     find (\<lambda>sid. case sessions w sid of None \<Rightarrow> False
                 | Some s \<Rightarrow> addr s = a \<and> ifindex s = ifi)
          (session_hash (protos w p))"

definition bfd_add_session ::
  "bfd_world \<Rightarrow> nat \<Rightarrow> ip_addr \<Rightarrow> ip_addr \<Rightarrow> nat option \<Rightarrow> bfd_options \<Rightarrow> btime
     \<Rightarrow> bfd_world \<times> nat" where
  "bfd_add_session w p a l ifc ro now =
     (let sid = next_session w;
          ifi = (case ifc of Some i \<Rightarrow> i | None \<Rightarrow> 0);
          pr = protos w p;
          s = bfd_new_session p a ifi (iface_config pr ifc) ro now
      in (w\<lparr>next_session := Suc sid,
            sessions := (sessions w)(sid \<mapsto> s),
            protos := (protos w)(p := pr\<lparr>session_hash := sid # session_hash pr\<rparr>)\<rparr>,
          sid))"

definition bfd_remove_session :: "bfd_world \<Rightarrow> nat \<Rightarrow> nat \<Rightarrow> bfd_world" where
  "bfd_remove_session w p sid =
     (let pr = protos w p
      in w\<lparr>sessions := (sessions w)(sid := None),
           protos := (protos w)(p := pr\<lparr>session_hash := removeAll sid (session_hash pr),
                                         notify_list := removeAll sid (notify_list pr)\<rparr>)\<rparr>)"

text \<open>\<open>rem_node(&req->n)\<close>: the request leaves the list it is on, which is the
  request list of its session, or the wait list when it has no session (a request
  that is on no list is linked to itself, and nothing changes).\<close>

definition rem_request_node :: "bfd_world \<Rightarrow> nat \<Rightarrow> bfd_world" where
  "rem_request_node w h =
     (case requests w h of
        None \<Rightarrow> w
      | Some req \<Rightarrow>
        (case session req of
           None \<Rightarrow> w\<lparr>bfd_wait_list := removeAll h (bfd_wait_list w)\<rparr>
         | Some sid \<Rightarrow>
           (case sessions w sid of
              None \<Rightarrow> w
            | Some s \<Rightarrow>
              w\<lparr>sessions := (sessions w)(sid \<mapsto> s\<lparr>request_list := removeAll h (request_list s)\<rparr>)\<rparr>)))"

definition bfd_request_free :: "bfd_world \<Rightarrow> nat \<Rightarrow> bfd_world" where
  "bfd_request_free w h =
     (case requests w h of
        None \<Rightarrow> w
      | Some req \<Rightarrow>
        (let w1 = rem_request_node w h
         in case session req of
              None \<Rightarrow> w1
            | Some sid \<Rightarrow>
              (case sessions w1 sid of
                 None \<Rightarrow> w1
               | Some s \<Rightarrow>
                 if request_list s = [] \<and> \<not> notify_running s
                 then bfd_remove_session w1 (ifa_bfd s) sid else w1)))"

text \<open>Modelled from the spec: \<open>rfree\<close> of lib/resource.c, which is not among the
  sources, on a request: the release of a subscription. It runs the free hook of the
  resource class, \<open>bfd_request_free\<close>, and gives the memory back.\<close>

definition rfree :: "bfd_world \<Rightarrow> nat \<Rightarrow> bfd_world" where
  "rfree w h = (let w1 = bfd_request_free w h in w1\<lparr>requests := (requests w1)(h := None)\<rparr>)"

definition run_hook :: "bfd_world \<Rightarrow> hook_fn \<Rightarrow> nat \<Rightarrow> bfd_world" where
  "run_hook w f h = (case f of Hook_observe \<Rightarrow> w | Hook_release \<Rightarrow> rfree w h)"

text \<open>\<open>bfd_request_notify\<close> on the request stored under a handle: the request is
  updated in place and the hook, if the function calls one, is logged and run.\<close>

definition bfd_notify_request :: "bfd_world \<Rightarrow> nat \<Rightarrow> u8 \<Rightarrow> u8 \<Rightarrow> u8 \<Rightarrow> bfd_world" where
  "bfd_notify_request w h st remote dg =
     (case requests w h of
        None \<Rightarrow> w
      | Some req \<Rightarrow>
        (let (req1, called) = bfd_request_notify req st remote dg;
             w1 = w\<lparr>requests := (requests w)(h \<mapsto> req1)\<rparr>
         in case called of
              None \<Rightarrow> w1
            | Some f \<Rightarrow>
              run_hook (w1\<lparr>events := events w1 @
                             [Hook_called h (state req1) (diag req1) (old_state req1) (down req1)]\<rparr>)
                       f h))"

definition bfd_add_request :: "bfd_world \<Rightarrow> nat \<Rightarrow> nat \<Rightarrow> btime \<Rightarrow> bfd_world \<times> bool" where
  "bfd_add_request w p h now =
     (case requests w h of
        None \<Rightarrow> (w, False)
      | Some req \<Rightarrow>
        (let pr = protos w p
         in if vrf_set pr \<and> vrf pr \<noteq> req_vrf req then (w, False)
            else if (if ipa_is_ip4 (req_addr req) then \<not> accept_ipv4 pr else \<not> accept_ipv6 pr)
              then (w, False)
            else if (if req_iface req \<noteq> None then \<not> accept_direct pr else \<not> accept_multihop pr)
              then (w, False)
            else
              (let ifi = (case req_iface req of Some i \<Rightarrow> i | None \<Rightarrow> 0);
                   (w1, sid) = (case bfd_find_session_by_addr w p (req_addr req) ifi of
                                  Some sid \<Rightarrow> (w, sid)
                                | None \<Rightarrow> bfd_add_session w p (req_addr req) (req_local req)
                                            (req_iface req) (opts req) now);
                   w2 = rem_request_node w1 h
               in case sessions w2 sid of
                    None \<Rightarrow> (w2, True)
                  | Some s \<Rightarrow>
                    (let w3 = w2\<lparr>sessions := (sessions w2)(sid \<mapsto> s\<lparr>request_list := request_list s @ [h]\<rparr>),
                                 requests := (requests w2)(h \<mapsto> req\<lparr>session := Some sid\<rparr>)\<rparr>
                     in (bfd_notify_request w3 h (loc_state s) (rem_state s) (loc_diag s), True)))))"

text \<open>The walk of \<open>bfd_submit_request\<close> over the running engines: it ends at the
  first engine that takes the request.\<close>

fun submit_walk :: "bfd_world \<Rightarrow> nat list \<Rightarrow> nat \<Rightarrow> btime \<Rightarrow> bfd_world \<times> bool" where
  "submit_walk w [] h now = (w, False)"
| "submit_walk w (p # ps) h now =
     (case bfd_add_request w p h now of
        (w1, True) \<Rightarrow> (w1, True)
      | (w1, False) \<Rightarrow> submit_walk w1 ps h now)"

definition bfd_submit_request :: "bfd_world \<Rightarrow> nat \<Rightarrow> btime \<Rightarrow> bfd_world" where
  "bfd_submit_request w h now =
     (case submit_walk w (bfd_proto_list w) h now of
        (w1, True) \<Rightarrow> w1
      | (w1, False) \<Rightarrow>
        (let w2 = rem_request_node w1 h;
             w3 = w2\<lparr>bfd_wait_list := bfd_wait_list w2 @ [h],
                     requests := (\<lambda>k. if k = h then map_option (\<lambda>r. r\<lparr>session := None\<rparr>) (requests w2 h)
                                       else requests w2 k)\<rparr>
         in bfd_notify_request w3 h BFD_STATE_ADMIN_DOWN BFD_STATE_ADMIN_DOWN 0))"

text \<open>\<open>bfd_request_session\<close>. \<open>ralloc\<close> hands out the handle \<open>h\<close> and zeroed memory,
  so the new request has no hook, no session and state 0 until the function fills
  them in; \<open>new_request\<close> is the request as it is when it is submitted. The result
  is the world after the call; the request is stored under \<open>h\<close>.\<close>

definition new_request ::
  "ip_addr \<Rightarrow> ip_addr \<Rightarrow> nat option \<Rightarrow> nat option \<Rightarrow> bfd_options option \<Rightarrow> bfd_request" where
  "new_request a l ifc v ro =
     \<lparr>req_addr = a, req_local = l, req_iface = ifc, req_vrf = v,
      opts = (case ro of Some x \<Rightarrow> x | None \<Rightarrow> no_options),
      hook = None, data = 0, session = None,
      state = 0, diag = 0, old_state = 0, down = False\<rparr>"

definition bfd_request_session ::
  "bfd_world \<Rightarrow> nat \<Rightarrow> ip_addr \<Rightarrow> ip_addr \<Rightarrow> nat option \<Rightarrow> nat option \<Rightarrow> hook_fn option
     \<Rightarrow> nat \<Rightarrow> bfd_options option \<Rightarrow> btime \<Rightarrow> bfd_world" where
  "bfd_request_session w h a l ifc v hk d ro now =
     (let req = new_request a l ifc v ro;
          w1 = bfd_submit_request (w\<lparr>requests := (requests w)(h \<mapsto> req)\<rparr>) h now
      in w1\<lparr>requests := (\<lambda>k. if k = h then map_option (\<lambda>r. r\<lparr>hook := hk, data := d\<rparr>) (requests w1 h)
                              else requests w1 k)\<rparr>)"

text \<open>\<open>bfd_update_request\<close>. \<open>memcmp\<close> over the two option structures finds no
  difference exactly when all eight fields agree as bytes, the address of the password
  list included: new options that hold a copy of the same keys at another address
  differ, are stored, and reconfigure the session. A call of
  \<open>bfd_reconfigure_session\<close> is logged before it runs.\<close>

definition bfd_update_request :: "bfd_world \<Rightarrow> nat \<Rightarrow> bfd_options \<Rightarrow> btime \<Rightarrow> bfd_world" where
  "bfd_update_request w h ro now =
     (case requests w h of
        None \<Rightarrow> w
      | Some req \<Rightarrow>
        if ro = opts req then w
        else (let w1 = w\<lparr>requests := (requests w)(h \<mapsto> req\<lparr>opts := ro\<rparr>)\<rparr>
              in case session req of
                   None \<Rightarrow> w1
                 | Some sid \<Rightarrow>
                   (case sessions w1 sid of
                      None \<Rightarrow> w1
                    | Some s \<Rightarrow>
                      w1\<lparr>events := events w1 @ [Reconfigure_called sid],
                         sessions := (sessions w1)(sid \<mapsto> bfd_reconfigure_session (requests w1) s now)\<rparr>)))"

text \<open>\<open>bfd_notify_hook\<close>. The inner walk visits the requests that are on the
  session's list when it starts; a hook removes at most the request it is called for,
  which is what the deletion-safe walk of the source allows. The outer walk takes the
  sessions that were on the notify list; one that has been removed since is skipped.\<close>

fun notify_requests :: "bfd_world \<Rightarrow> nat list \<Rightarrow> u8 \<Rightarrow> u8 \<Rightarrow> u8 \<Rightarrow> bfd_world" where
  "notify_requests w [] l r d = w"
| "notify_requests w (h # hs) l r d = notify_requests (bfd_notify_request w h l r d) hs l r d"

definition bfd_notify_session :: "bfd_world \<Rightarrow> nat \<Rightarrow> nat \<Rightarrow> bfd_world" where
  "bfd_notify_session w p sid =
     (case sessions w sid of
        None \<Rightarrow> w
      | Some s \<Rightarrow>
        (let w1 = w\<lparr>sessions := (sessions w)(sid \<mapsto> s\<lparr>notify_linked := False, notify_running := True\<rparr>)\<rparr>;
             w2 = notify_requests w1 (request_list s) (loc_state s) (rem_state s) (loc_diag s)
         in case sessions w2 sid of
              None \<Rightarrow> w2
            | Some s2 \<Rightarrow>
              (let w3 = w2\<lparr>sessions := (sessions w2)(sid \<mapsto> s2\<lparr>notify_running := False\<rparr>)\<rparr>
               in if request_list s2 = [] then bfd_remove_session w3 p sid else w3)))"

fun notify_walk :: "bfd_world \<Rightarrow> nat \<Rightarrow> nat list \<Rightarrow> bfd_world" where
  "notify_walk w p [] = w"
| "notify_walk w p (sid # rest) = notify_walk (bfd_notify_session w p sid) p rest"

definition bfd_notify_hook :: "bfd_world \<Rightarrow> nat \<Rightarrow> bfd_world" where
  "bfd_notify_hook w p =
     (let pr = protos w p;
          tmp_list = notify_list pr
      in notify_walk (w\<lparr>protos := (protos w)(p := pr\<lparr>notify_list := []\<rparr>)\<rparr>) p tmp_list)"

text \<open>The number of calls of \<open>bfd_reconfigure_session\<close> in the log.\<close>

definition reconfigure_calls :: "bfd_world \<Rightarrow> nat" where
  "reconfigure_calls w =
     length (filter (\<lambda>e. case e of Reconfigure_called _ \<Rightarrow> True | _ \<Rightarrow> False) (events w))"

text \<open>Two requests differ at most in the fields a notification and an attachment
  write: \<open>session\<close>, \<open>state\<close>, \<open>diag\<close>, \<open>old_state\<close> and \<open>down\<close>.\<close>

definition differs_by_delivery :: "bfd_request \<Rightarrow> bfd_request \<Rightarrow> bool" where
  "differs_by_delivery req r \<longleftrightarrow>
     r = req\<lparr>session := session r, state := state r, diag := diag r,
             old_state := old_state r, down := down r\<rparr>"

text \<open>The hook call that the notification contract of the specification prescribes
  for one request, given the state, the remote state and the diagnostic that are
  delivered: none when the state is the one last delivered or the request has no hook,
  else one call that shows the new state and diagnostic, the previous state, and the
  \<open>down\<close> flag.\<close>

definition delivery :: "nat \<Rightarrow> bfd_request \<Rightarrow> u8 \<Rightarrow> u8 \<Rightarrow> u8 \<Rightarrow> event list" where
  "delivery h req st remote dg =
     (if st \<noteq> state req \<and> hook req \<noteq> None
      then [Hook_called h st dg (state req)
              (state req = BFD_STATE_UP \<and> st = BFD_STATE_DOWN \<and> remote \<noteq> BFD_STATE_ADMIN_DOWN)]
      else [])"

section \<open>Example sessions\<close>

text \<open>A session just created with the default configuration whose peer reports
  state Up in its first packet.\<close>

definition peer_up_session :: bfd_session where
  "peer_up_session =
     (bfd_new_session 0 (IP4 1) 0 bfd_default_iface no_options 1)\<lparr>rem_state := BFD_STATE_UP\<rparr>"

text \<open>A session configured with an idle TX interval of 1000001 microseconds, after its
  TX timer has fired once at time 2.\<close>

definition odd_interval_session :: bfd_session where
  "odd_interval_session =
     bfd_tx_timer_hook
       (bfd_new_session 0 (IP4 1) 0 bfd_default_iface (no_options\<lparr>opt_idle_tx_int := 1000001\<rparr>) 1) 2"

text \<open>A session that has come up with a peer whose discriminator is 7, both sides
  at 100 ms, and the same session in the middle of a poll sequence that raises its
  desired TX interval to 300 ms.\<close>

definition up_session :: bfd_session where
  "up_session =
     (bfd_new_session 0 (IP4 1) 0 bfd_default_iface no_options 1)
       \<lparr>loc_state := BFD_STATE_UP, rem_state := BFD_STATE_UP, rem_id := 7,
        des_min_tx_int := 100000, des_min_tx_new := 100000,
        rem_min_tx_int := 100000, rem_min_rx_int := 100000, rem_detect_mult := 3\<rparr>"

definition polling_session :: bfd_session where
  "polling_session = up_session\<lparr>poll_active := BFD_POLL_TX, des_min_tx_new := 300000\<rparr>"

text \<open>A world without engines, a world with one engine that accepts everything and
  uses the default interface configuration, and a request that has been told its
  session is Up.\<close>

definition accepting_proto :: bfd_proto where
  "accepting_proto =
     \<lparr>vrf_set = False, vrf = None, accept_ipv4 = True, accept_ipv6 = True,
      accept_direct = True, accept_multihop = True,
      iface_config = (\<lambda>_. bfd_default_iface), session_hash = [], notify_list = []\<rparr>"

definition empty_world :: bfd_world where
  "empty_world =
     \<lparr>bfd_proto_list = [], protos = (\<lambda>_. accepting_proto), sessions = (\<lambda>_. None),
      requests = (\<lambda>_. None), bfd_wait_list = [], next_session = 0, events = []\<rparr>"

definition one_engine_world :: bfd_world where
  "one_engine_world = empty_world\<lparr>bfd_proto_list := [0]\<rparr>"

definition up_request :: bfd_request where
  "up_request =
     (new_request (IP4 1) (IP4 2) None None None)
       \<lparr>hook := Some Hook_observe, state := BFD_STATE_UP\<rparr>"

text \<open>A world with one engine and one session, which has just come up and waits on the
  notify list. Its only request still holds state Down, and its hook releases the
  request when it is called.\<close>

definition releasing_request :: bfd_request where
  "releasing_request =
     (new_request (IP4 1) (IP4 2) None None None)
       \<lparr>hook := Some Hook_release, session := Some 0, state := BFD_STATE_DOWN\<rparr>"

definition releasing_session :: bfd_session where
  "releasing_session = up_session\<lparr>request_list := [0], notify_linked := True\<rparr>"

definition releasing_world :: bfd_world where
  "releasing_world =
     \<lparr>bfd_proto_list = [0],
      protos = (\<lambda>_. accepting_proto\<lparr>session_hash := [0], notify_list := [0]\<rparr>),
      sessions = (\<lambda>_. None)(0 \<mapsto> releasing_session),
      requests = (\<lambda>_. None)(0 \<mapsto> releasing_request),
      bfd_wait_list = [], next_session = 1, events = []\<rparr>"

text \<open>A session that is shut down by its peer and then times out before the notifier
  has run. A new session hears its peer in state Down at time 2 and in state Up at
  time 3, which brings it up. At time 5 the peer sends state AdminDown, which takes
  the session Down with diagnostic NeighborDown and arms the hold timer for 300005; at
  that time the hold timer fires. In the world around it the session has one request,
  which observes and was last told Up, and waits on the notify list.\<close>

definition peer_packet :: "u8 \<Rightarrow> bfd_ctl_packet" where
  "peer_packet st =
     \<lparr>pkt_state = st, pkt_flags = 0, pkt_detect_mult = 3, pkt_snd_id = 7,
      pkt_des_min_tx_int = 100000, pkt_req_min_rx_int = 100000\<rparr>"

definition live_session :: bfd_session where
  "live_session =
     bfd_rx_ctl
       (bfd_rx_ctl (bfd_new_session 0 (IP4 1) 0 bfd_default_iface no_options 1)
          (peer_packet BFD_STATE_DOWN) 2)
       (peer_packet BFD_STATE_UP) 3"

definition shut_session :: bfd_session where
  "shut_session = bfd_rx_ctl live_session (peer_packet BFD_STATE_ADMIN_DOWN) 5"

definition shut_expired_session :: bfd_session where
  "shut_expired_session =
     bfd_hold_timer_hook (shut_session\<lparr>hold_timer := tm_stop (hold_timer shut_session)\<rparr>) 300005"

definition shut_world :: bfd_world where
  "shut_world =
     \<lparr>bfd_proto_list = [0],
      protos = (\<lambda>_. accepting_proto\<lparr>session_hash := [0], notify_list := [0]\<rparr>),
      sessions = (\<lambda>_. None)(0 \<mapsto> shut_expired_session\<lparr>request_list := [0]\<rparr>),
      requests = (\<lambda>_. None)(0 \<mapsto> up_request\<lparr>session := Some 0\<rparr>),
      bfd_wait_list = [], next_session = 1, events = []\<rparr>"

section \<open>Properties of the session state machine\<close>

lemmas bfd_consts =
  BFD_STATE_ADMIN_DOWN_def BFD_STATE_DOWN_def BFD_STATE_INIT_def BFD_STATE_UP_def
  BFD_DIAG_NOTHING_def BFD_DIAG_TIMEOUT_def BFD_DIAG_NEIGHBOR_DOWN_def
  BFD_POLL_TX_def BFD_POLL_RX_def BFD_FLAG_POLL_def BFD_FLAG_FINAL_def

subsection \<open>Fields each operation leaves alone\<close>

lemma update_tx_interval_frame [simp]:
  "passive (bfd_session_update_tx_interval s) = passive s"
  "poll_active (bfd_session_update_tx_interval s) = poll_active s"
  "poll_scheduled (bfd_session_update_tx_interval s) = poll_scheduled s"
  "loc_state (bfd_session_update_tx_interval s) = loc_state s"
  "rem_state (bfd_session_update_tx_interval s) = rem_state s"
  "loc_diag (bfd_session_update_tx_interval s) = loc_diag s"
  "rem_id (bfd_session_update_tx_interval s) = rem_id s"
  "des_min_tx_int (bfd_session_update_tx_interval s) = des_min_tx_int s"
  "des_min_tx_new (bfd_session_update_tx_interval s) = des_min_tx_new s"
  "req_min_rx_int (bfd_session_update_tx_interval s) = req_min_rx_int s"
  "req_min_rx_new (bfd_session_update_tx_interval s) = req_min_rx_new s"
  "rem_min_tx_int (bfd_session_update_tx_interval s) = rem_min_tx_int s"
  "rem_min_rx_int (bfd_session_update_tx_interval s) = rem_min_rx_int s"
  "rem_demand_mode (bfd_session_update_tx_interval s) = rem_demand_mode s"
  "rem_detect_mult (bfd_session_update_tx_interval s) = rem_detect_mult s"
  "last_tx (bfd_session_update_tx_interval s) = last_tx s"
  "cf (bfd_session_update_tx_interval s) = cf s"
  "request_list (bfd_session_update_tx_interval s) = request_list s"
  "ifa_cf (bfd_session_update_tx_interval s) = ifa_cf s"
  by (simp_all add: bfd_session_update_tx_interval_def Let_def)

lemma update_detection_time_frame [simp]:
  "passive (bfd_session_update_detection_time s k now) = passive s"
  "poll_active (bfd_session_update_detection_time s k now) = poll_active s"
  "poll_scheduled (bfd_session_update_detection_time s k now) = poll_scheduled s"
  "loc_state (bfd_session_update_detection_time s k now) = loc_state s"
  "rem_state (bfd_session_update_detection_time s k now) = rem_state s"
  "loc_diag (bfd_session_update_detection_time s k now) = loc_diag s"
  "rem_id (bfd_session_update_detection_time s k now) = rem_id s"
  "des_min_tx_int (bfd_session_update_detection_time s k now) = des_min_tx_int s"
  "des_min_tx_new (bfd_session_update_detection_time s k now) = des_min_tx_new s"
  "req_min_rx_int (bfd_session_update_detection_time s k now) = req_min_rx_int s"
  "req_min_rx_new (bfd_session_update_detection_time s k now) = req_min_rx_new s"
  "rem_min_tx_int (bfd_session_update_detection_time s k now) = rem_min_tx_int s"
  "rem_min_rx_int (bfd_session_update_detection_time s k now) = rem_min_rx_int s"
  "rem_demand_mode (bfd_session_update_detection_time s k now) = rem_demand_mode s"
  "rem_detect_mult (bfd_session_update_detection_time s k now) = rem_detect_mult s"
  "last_tx (bfd_session_update_detection_time s k now) = last_tx s"
  "tx_timer (bfd_session_update_detection_time s k now) = tx_timer s"
  "cf (bfd_session_update_detection_time s k now) = cf s"
  "request_list (bfd_session_update_detection_time s k now) = request_list s"
  "ifa_cf (bfd_session_update_detection_time s k now) = ifa_cf s"
  by (simp_all add: bfd_session_update_detection_time_def Let_def)

lemma control_tx_timer_frame [simp]:
  "passive (bfd_session_control_tx_timer s r now) = passive s"
  "poll_active (bfd_session_control_tx_timer s r now) = poll_active s"
  "poll_scheduled (bfd_session_control_tx_timer s r now) = poll_scheduled s"
  "loc_state (bfd_session_control_tx_timer s r now) = loc_state s"
  "rem_state (bfd_session_control_tx_timer s r now) = rem_state s"
  "loc_diag (bfd_session_control_tx_timer s r now) = loc_diag s"
  "rem_id (bfd_session_control_tx_timer s r now) = rem_id s"
  "des_min_tx_int (bfd_session_control_tx_timer s r now) = des_min_tx_int s"
  "des_min_tx_new (bfd_session_control_tx_timer s r now) = des_min_tx_new s"
  "req_min_rx_int (bfd_session_control_tx_timer s r now) = req_min_rx_int s"
  "req_min_rx_new (bfd_session_control_tx_timer s r now) = req_min_rx_new s"
  "rem_min_tx_int (bfd_session_control_tx_timer s r now) = rem_min_tx_int s"
  "rem_min_rx_int (bfd_session_control_tx_timer s r now) = rem_min_rx_int s"
  "rem_demand_mode (bfd_session_control_tx_timer s r now) = rem_demand_mode s"
  "rem_detect_mult (bfd_session_control_tx_timer s r now) = rem_detect_mult s"
  "cf (bfd_session_control_tx_timer s r now) = cf s"
  "request_list (bfd_session_control_tx_timer s r now) = request_list s"
  "ifa_cf (bfd_session_control_tx_timer s r now) = ifa_cf s"
  by (simp_all add: bfd_session_control_tx_timer_def Let_def)

lemma send_ctl_frame [simp]:
  "passive (bfd_send_ctl s f) = passive s"
  "poll_active (bfd_send_ctl s f) = poll_active s"
  "poll_scheduled (bfd_send_ctl s f) = poll_scheduled s"
  "loc_state (bfd_send_ctl s f) = loc_state s"
  "rem_state (bfd_send_ctl s f) = rem_state s"
  "loc_diag (bfd_send_ctl s f) = loc_diag s"
  "rem_id (bfd_send_ctl s f) = rem_id s"
  "des_min_tx_int (bfd_send_ctl s f) = des_min_tx_int s"
  "des_min_tx_new (bfd_send_ctl s f) = des_min_tx_new s"
  "req_min_rx_int (bfd_send_ctl s f) = req_min_rx_int s"
  "req_min_rx_new (bfd_send_ctl s f) = req_min_rx_new s"
  "rem_min_tx_int (bfd_send_ctl s f) = rem_min_tx_int s"
  "rem_min_rx_int (bfd_send_ctl s f) = rem_min_rx_int s"
  "rem_demand_mode (bfd_send_ctl s f) = rem_demand_mode s"
  "rem_detect_mult (bfd_send_ctl s f) = rem_detect_mult s"
  "last_tx (bfd_send_ctl s f) = last_tx s"
  "tx_timer (bfd_send_ctl s f) = tx_timer s"
  "cf (bfd_send_ctl s f) = cf s"
  "request_list (bfd_send_ctl s f) = request_list s"
  "ifa_cf (bfd_send_ctl s f) = ifa_cf s"
  by (simp_all add: bfd_send_ctl_def)

lemma request_poll_frame [simp]:
  "passive (bfd_session_request_poll s r now) = passive s"
  "loc_state (bfd_session_request_poll s r now) = loc_state s"
  "rem_state (bfd_session_request_poll s r now) = rem_state s"
  "loc_diag (bfd_session_request_poll s r now) = loc_diag s"
  "rem_id (bfd_session_request_poll s r now) = rem_id s"
  "des_min_tx_int (bfd_session_request_poll s r now) = des_min_tx_int s"
  "des_min_tx_new (bfd_session_request_poll s r now) = des_min_tx_new s"
  "req_min_rx_int (bfd_session_request_poll s r now) = req_min_rx_int s"
  "req_min_rx_new (bfd_session_request_poll s r now) = req_min_rx_new s"
  "rem_min_tx_int (bfd_session_request_poll s r now) = rem_min_tx_int s"
  "rem_min_rx_int (bfd_session_request_poll s r now) = rem_min_rx_int s"
  "rem_demand_mode (bfd_session_request_poll s r now) = rem_demand_mode s"
  "rem_detect_mult (bfd_session_request_poll s r now) = rem_detect_mult s"
  "cf (bfd_session_request_poll s r now) = cf s"
  "request_list (bfd_session_request_poll s r now) = request_list s"
  "ifa_cf (bfd_session_request_poll s r now) = ifa_cf s"
  by (simp_all add: bfd_session_request_poll_def Let_def)

lemma terminate_poll_frame [simp]:
  "passive (bfd_session_terminate_poll s) = passive s"
  "loc_state (bfd_session_terminate_poll s) = loc_state s"
  "rem_state (bfd_session_terminate_poll s) = rem_state s"
  "loc_diag (bfd_session_terminate_poll s) = loc_diag s"
  "rem_id (bfd_session_terminate_poll s) = rem_id s"
  "des_min_tx_new (bfd_session_terminate_poll s) = des_min_tx_new s"
  "req_min_rx_new (bfd_session_terminate_poll s) = req_min_rx_new s"
  "rem_min_tx_int (bfd_session_terminate_poll s) = rem_min_tx_int s"
  "rem_min_rx_int (bfd_session_terminate_poll s) = rem_min_rx_int s"
  "rem_demand_mode (bfd_session_terminate_poll s) = rem_demand_mode s"
  "rem_detect_mult (bfd_session_terminate_poll s) = rem_detect_mult s"
  "last_tx (bfd_session_terminate_poll s) = last_tx s"
  "tx_timer (bfd_session_terminate_poll s) = tx_timer s"
  "cf (bfd_session_terminate_poll s) = cf s"
  "request_list (bfd_session_terminate_poll s) = request_list s"
  "ifa_cf (bfd_session_terminate_poll s) = ifa_cf s"
  by (simp_all add: bfd_session_terminate_poll_def Let_def)

lemma set_min_tx_frame [simp]:
  "passive (bfd_session_set_min_tx s v now) = passive s"
  "loc_state (bfd_session_set_min_tx s v now) = loc_state s"
  "rem_state (bfd_session_set_min_tx s v now) = rem_state s"
  "loc_diag (bfd_session_set_min_tx s v now) = loc_diag s"
  "rem_id (bfd_session_set_min_tx s v now) = rem_id s"
  "req_min_rx_int (bfd_session_set_min_tx s v now) = req_min_rx_int s"
  "req_min_rx_new (bfd_session_set_min_tx s v now) = req_min_rx_new s"
  "rem_min_tx_int (bfd_session_set_min_tx s v now) = rem_min_tx_int s"
  "rem_min_rx_int (bfd_session_set_min_tx s v now) = rem_min_rx_int s"
  "rem_demand_mode (bfd_session_set_min_tx s v now) = rem_demand_mode s"
  "rem_detect_mult (bfd_session_set_min_tx s v now) = rem_detect_mult s"
  "cf (bfd_session_set_min_tx s v now) = cf s"
  "request_list (bfd_session_set_min_tx s v now) = request_list s"
  "ifa_cf (bfd_session_set_min_tx s v now) = ifa_cf s"
  by (simp_all add: bfd_session_set_min_tx_def Let_def)

lemma set_min_rx_frame [simp]:
  "passive (bfd_session_set_min_rx s v now) = passive s"
  "loc_state (bfd_session_set_min_rx s v now) = loc_state s"
  "rem_state (bfd_session_set_min_rx s v now) = rem_state s"
  "loc_diag (bfd_session_set_min_rx s v now) = loc_diag s"
  "rem_id (bfd_session_set_min_rx s v now) = rem_id s"
  "des_min_tx_int (bfd_session_set_min_rx s v now) = des_min_tx_int s"
  "des_min_tx_new (bfd_session_set_min_rx s v now) = des_min_tx_new s"
  "rem_min_tx_int (bfd_session_set_min_rx s v now) = rem_min_tx_int s"
  "rem_min_rx_int (bfd_session_set_min_rx s v now) = rem_min_rx_int s"
  "rem_demand_mode (bfd_session_set_min_rx s v now) = rem_demand_mode s"
  "rem_detect_mult (bfd_session_set_min_rx s v now) = rem_detect_mult s"
  "cf (bfd_session_set_min_rx s v now) = cf s"
  "request_list (bfd_session_set_min_rx s v now) = request_list s"
  "ifa_cf (bfd_session_set_min_rx s v now) = ifa_cf s"
  by (simp_all add: bfd_session_set_min_rx_def Let_def)

lemma update_state_frame [simp]:
  "passive (bfd_session_update_state s st dg now) = passive s"
  "rem_state (bfd_session_update_state s st dg now) = rem_state s"
  "rem_id (bfd_session_update_state s st dg now) = rem_id s"
  "req_min_rx_int (bfd_session_update_state s st dg now) = req_min_rx_int s"
  "req_min_rx_new (bfd_session_update_state s st dg now) = req_min_rx_new s"
  "rem_min_tx_int (bfd_session_update_state s st dg now) = rem_min_tx_int s"
  "rem_min_rx_int (bfd_session_update_state s st dg now) = rem_min_rx_int s"
  "rem_demand_mode (bfd_session_update_state s st dg now) = rem_demand_mode s"
  "rem_detect_mult (bfd_session_update_state s st dg now) = rem_detect_mult s"
  "cf (bfd_session_update_state s st dg now) = cf s"
  "request_list (bfd_session_update_state s st dg now) = request_list s"
  "ifa_cf (bfd_session_update_state s st dg now) = ifa_cf s"
  by (simp_all add: bfd_session_update_state_def Let_def)

subsection \<open>The transition table\<close>

lemma update_state_loc:
  "loc_state (bfd_session_update_state s st dg now) = st"
  "loc_diag (bfd_session_update_state s st dg now) = (if st = loc_state s then loc_diag s else dg)"
  by (simp_all add: bfd_session_update_state_def Let_def)

lemma process_ctl_loc_state:
  "loc_state (bfd_session_process_ctl s flags otx orx now) =
     (if loc_state s = BFD_STATE_ADMIN_DOWN \<or> fst (bfd_next_state (loc_state s) (rem_state s)) = 0
      then loc_state s else fst (bfd_next_state (loc_state s) (rem_state s)))"
  by (simp add: bfd_session_process_ctl_def Let_def update_state_loc split: prod.splits)

lemma process_ctl_loc_diag:
  "loc_diag (bfd_session_process_ctl s flags otx orx now) =
     (if loc_state s = BFD_STATE_ADMIN_DOWN \<or> fst (bfd_next_state (loc_state s) (rem_state s)) = 0
         \<or> fst (bfd_next_state (loc_state s) (rem_state s)) = loc_state s
      then loc_diag s else snd (bfd_next_state (loc_state s) (rem_state s)))"
  by (simp add: bfd_session_process_ctl_def Let_def update_state_loc split: prod.splits)

lemma new_session_loc_state:
  "loc_state (bfd_new_session p a ifi ic ro now) = BFD_STATE_DOWN"
  by (simp add: bfd_new_session_def Let_def)

text \<open>C1, as the code has it. A control packet processed by \<open>bfd_session_process_ctl\<close>
  moves the session as follows: from Down, remote state Down gives Init with diagnostic
  None, remote state Init gives Up with diagnostic None, and remote state Up leaves the
  session Down with its diagnostic unchanged; from Init, remote AdminDown gives Down with
  diagnostic NeighborDown and remote Init or Up gives Up with diagnostic None; from Up,
  remote AdminDown or Down gives Down with diagnostic NeighborDown; in AdminDown nothing
  changes.\<close>

theorem process_ctl_transitions:
  "(let s' = bfd_session_process_ctl s flags otx orx now in
     (loc_state s = BFD_STATE_DOWN \<and> rem_state s = BFD_STATE_DOWN \<longrightarrow>
        loc_state s' = BFD_STATE_INIT \<and> loc_diag s' = BFD_DIAG_NOTHING) \<and>
     (loc_state s = BFD_STATE_DOWN \<and> rem_state s = BFD_STATE_INIT \<longrightarrow>
        loc_state s' = BFD_STATE_UP \<and> loc_diag s' = BFD_DIAG_NOTHING) \<and>
     (loc_state s = BFD_STATE_DOWN \<and> rem_state s = BFD_STATE_UP \<longrightarrow>
        loc_state s' = BFD_STATE_DOWN \<and> loc_diag s' = loc_diag s) \<and>
     (loc_state s = BFD_STATE_INIT \<and> rem_state s = BFD_STATE_ADMIN_DOWN \<longrightarrow>
        loc_state s' = BFD_STATE_DOWN \<and> loc_diag s' = BFD_DIAG_NEIGHBOR_DOWN) \<and>
     (loc_state s = BFD_STATE_INIT \<and> (rem_state s = BFD_STATE_INIT \<or> rem_state s = BFD_STATE_UP) \<longrightarrow>
        loc_state s' = BFD_STATE_UP \<and> loc_diag s' = BFD_DIAG_NOTHING) \<and>
     (loc_state s = BFD_STATE_UP \<and> (rem_state s = BFD_STATE_ADMIN_DOWN \<or> rem_state s = BFD_STATE_DOWN) \<longrightarrow>
        loc_state s' = BFD_STATE_DOWN \<and> loc_diag s' = BFD_DIAG_NEIGHBOR_DOWN) \<and>
     (loc_state s = BFD_STATE_ADMIN_DOWN \<longrightarrow>
        loc_state s' = BFD_STATE_ADMIN_DOWN \<and> loc_diag s' = loc_diag s))"
  unfolding Let_def process_ctl_loc_state process_ctl_loc_diag
  by (auto simp add: bfd_next_state_def bfd_consts)

text \<open>The table at work on sessions made from a new one by setting the two states:
  one session for each row.\<close>

theorem process_ctl_transitions_witness:
  "(let n = bfd_new_session 0 (IP4 1) 0 bfd_default_iface no_options 1;
        run = (\<lambda>l r. bfd_session_process_ctl (n\<lparr>loc_state := l, rem_state := r\<rparr>) 0 1000000 1 2)
    in loc_state (run BFD_STATE_DOWN BFD_STATE_DOWN) = BFD_STATE_INIT \<and>
       loc_state (run BFD_STATE_DOWN BFD_STATE_INIT) = BFD_STATE_UP \<and>
       loc_state (run BFD_STATE_DOWN BFD_STATE_UP) = BFD_STATE_DOWN \<and>
       loc_state (run BFD_STATE_INIT BFD_STATE_ADMIN_DOWN) = BFD_STATE_DOWN \<and>
       loc_diag (run BFD_STATE_INIT BFD_STATE_ADMIN_DOWN) = BFD_DIAG_NEIGHBOR_DOWN \<and>
       loc_state (run BFD_STATE_INIT BFD_STATE_UP) = BFD_STATE_UP \<and>
       loc_state (run BFD_STATE_UP BFD_STATE_DOWN) = BFD_STATE_DOWN \<and>
       loc_diag (run BFD_STATE_UP BFD_STATE_DOWN) = BFD_DIAG_NEIGHBOR_DOWN \<and>
       loc_state (run BFD_STATE_ADMIN_DOWN BFD_STATE_UP) = BFD_STATE_ADMIN_DOWN)"
  using
    process_ctl_transitions [of "(bfd_new_session 0 (IP4 1) 0 bfd_default_iface no_options 1)\<lparr>loc_state := BFD_STATE_DOWN, rem_state := BFD_STATE_DOWN\<rparr>" 0 1000000 1 2]
    process_ctl_transitions [of "(bfd_new_session 0 (IP4 1) 0 bfd_default_iface no_options 1)\<lparr>loc_state := BFD_STATE_DOWN, rem_state := BFD_STATE_INIT\<rparr>" 0 1000000 1 2]
    process_ctl_transitions [of "(bfd_new_session 0 (IP4 1) 0 bfd_default_iface no_options 1)\<lparr>loc_state := BFD_STATE_DOWN, rem_state := BFD_STATE_UP\<rparr>" 0 1000000 1 2]
    process_ctl_transitions [of "(bfd_new_session 0 (IP4 1) 0 bfd_default_iface no_options 1)\<lparr>loc_state := BFD_STATE_INIT, rem_state := BFD_STATE_ADMIN_DOWN\<rparr>" 0 1000000 1 2]
    process_ctl_transitions [of "(bfd_new_session 0 (IP4 1) 0 bfd_default_iface no_options 1)\<lparr>loc_state := BFD_STATE_INIT, rem_state := BFD_STATE_UP\<rparr>" 0 1000000 1 2]
    process_ctl_transitions [of "(bfd_new_session 0 (IP4 1) 0 bfd_default_iface no_options 1)\<lparr>loc_state := BFD_STATE_UP, rem_state := BFD_STATE_DOWN\<rparr>" 0 1000000 1 2]
    process_ctl_transitions [of "(bfd_new_session 0 (IP4 1) 0 bfd_default_iface no_options 1)\<lparr>loc_state := BFD_STATE_ADMIN_DOWN, rem_state := BFD_STATE_UP\<rparr>" 0 1000000 1 2]
  by (simp add: Let_def bfd_consts)

text \<open>The row of C1 that the code does not have: a session that is Down and sees
  remote state Up does not go Up.\<close>

theorem process_ctl_down_up_counterexample:
  "loc_state peer_up_session = BFD_STATE_DOWN \<and> rem_state peer_up_session = BFD_STATE_UP \<and>
   loc_state (bfd_session_process_ctl peer_up_session 0 1000000 1 2) \<noteq> BFD_STATE_UP"
  by (simp add: process_ctl_loc_state peer_up_session_def new_session_loc_state
        bfd_next_state_def bfd_consts)

lemma new_session_fields:
  "passive (bfd_new_session p a ifi ic ro now) = cf_passive (bfd_merge_options ic ro)"
  "rem_id (bfd_new_session p a ifi ic ro now) = 0"
  "rem_state (bfd_new_session p a ifi ic ro now) = BFD_STATE_DOWN"
  "rem_min_rx_int (bfd_new_session p a ifi ic ro now) = 1"
  "des_min_tx_int (bfd_new_session p a ifi ic ro now) = cf_idle_tx_int (bfd_merge_options ic ro)"
  "des_min_tx_new (bfd_new_session p a ifi ic ro now) = cf_idle_tx_int (bfd_merge_options ic ro)"
  "req_min_rx_int (bfd_new_session p a ifi ic ro now) = cf_min_rx_int (bfd_merge_options ic ro)"
  "req_min_rx_new (bfd_new_session p a ifi ic ro now) = cf_min_rx_int (bfd_merge_options ic ro)"
  "poll_active (bfd_new_session p a ifi ic ro now) = 0"
  "poll_scheduled (bfd_new_session p a ifi ic ro now) = 0"
  by (simp_all add: bfd_new_session_def Let_def)

lemmas example_defs =
  bfd_merge_options_def elvis_def bfd_default_iface_def no_options_def

subsection \<open>Detection timeout\<close>

lemma control_tx_timer_starts:
  "\<not> passive s \<Longrightarrow> \<not> rem_demand_mode s \<Longrightarrow> rem_min_rx_int s \<noteq> 0 \<Longrightarrow>
   tm_active (tx_timer (bfd_session_control_tx_timer s True now))"
  by (simp add: bfd_session_control_tx_timer_def Let_def tm_start_def tm_set_def tm_active_def)

text \<open>C2. When the hold timer fires, a session that is Up or Init goes Down with
  diagnostic Time expired; the remote state is set to Down, the remote discriminator,
  the remote minimum TX interval, the remote demand mode and the remote detection
  multiplier are zeroed, and the remote minimum RX interval is set to 1, so that the TX
  timer of a session that is not passive is armed again.\<close>

theorem hold_timer_expiry:
  "(let s' = bfd_hold_timer_hook s now in
     (loc_state s = BFD_STATE_UP \<or> loc_state s = BFD_STATE_INIT \<longrightarrow>
        loc_state s' = BFD_STATE_DOWN \<and> loc_diag s' = BFD_DIAG_TIMEOUT) \<and>
     rem_state s' = BFD_STATE_DOWN \<and> rem_id s' = 0 \<and> rem_min_tx_int s' = 0 \<and>
     \<not> rem_demand_mode s' \<and> rem_detect_mult s' = 0 \<and> rem_min_rx_int s' = 1 \<and>
     (\<not> passive s \<longrightarrow> tm_active (tx_timer s')))"
  by (auto simp add: Let_def bfd_hold_timer_hook_def bfd_session_timeout_def update_state_loc
        control_tx_timer_starts bfd_consts)

theorem hold_timer_expiry_witness:
  "loc_state up_session = BFD_STATE_UP \<and> \<not> passive up_session \<and>
   loc_state (bfd_hold_timer_hook up_session 5) = BFD_STATE_DOWN \<and>
   loc_diag (bfd_hold_timer_hook up_session 5) = BFD_DIAG_TIMEOUT \<and>
   rem_min_rx_int (bfd_hold_timer_hook up_session 5) = 1 \<and>
   tm_active (tx_timer (bfd_hold_timer_hook up_session 5))"
proof -
  have h: "loc_state up_session = BFD_STATE_UP" "\<not> passive up_session"
    by (simp_all add: up_session_def new_session_fields example_defs)
  show ?thesis
    using h hold_timer_expiry [of up_session 5] by (simp add: Let_def)
qed

subsection \<open>The poll sequence\<close>

lemma flags_without_final:
  "(flags AND NOT BFD_FLAG_FINAL) AND BFD_FLAG_FINAL = 0"
  "(flags AND NOT BFD_FLAG_FINAL) AND BFD_FLAG_POLL = flags AND BFD_FLAG_POLL"
  by (simp_all add: bfd_consts word_bw_assocs)

lemma terminate_poll_fields:
  "des_min_tx_int (bfd_session_terminate_poll s) =
     (if (poll_active s AND NOT (poll_scheduled s)) AND BFD_POLL_TX \<noteq> 0
      then des_min_tx_new s else des_min_tx_int s)"
  "req_min_rx_int (bfd_session_terminate_poll s) =
     (if (poll_active s AND NOT (poll_scheduled s)) AND BFD_POLL_RX \<noteq> 0
      then req_min_rx_new s else req_min_rx_int s)"
  "poll_active (bfd_session_terminate_poll s) = poll_scheduled s"
  "poll_scheduled (bfd_session_terminate_poll s) = 0"
  by (simp_all add: bfd_session_terminate_poll_def Let_def)

lemma process_ctl_after_terminate:
  "poll_active s \<noteq> 0 \<Longrightarrow> flags AND BFD_FLAG_FINAL \<noteq> 0 \<Longrightarrow>
   bfd_session_process_ctl s flags otx orx now =
   bfd_session_process_ctl (bfd_session_terminate_poll s) (flags AND NOT BFD_FLAG_FINAL) otx orx now"
  by (simp add: bfd_session_process_ctl_def flags_without_final Let_def)

lemma process_ctl_no_transition:
  "fst (bfd_next_state (loc_state s) (rem_state s)) = 0 \<Longrightarrow>
   flags AND BFD_FLAG_FINAL = 0 \<Longrightarrow>
   des_min_tx_int (bfd_session_process_ctl s flags otx orx now) = des_min_tx_int s \<and>
   req_min_rx_int (bfd_session_process_ctl s flags otx orx now) = req_min_rx_int s \<and>
   poll_active (bfd_session_process_ctl s flags otx orx now) = poll_active s \<and>
   poll_scheduled (bfd_session_process_ctl s flags otx orx now) = poll_scheduled s"
  by (cases "bfd_next_state (loc_state s) (rem_state s)")
     (simp add: bfd_session_process_ctl_def Let_def)

text \<open>C3. When a packet with the Final flag is processed while a poll is active,
  \<open>bfd_session_process_ctl\<close> first ends the poll: the desired TX interval and the
  required RX interval take their stashed values exactly for the bits that are active
  and not scheduled again, the scheduled bits become the active poll and the scheduled
  set is emptied; the packet is then processed as one without the Final flag, and when
  it causes no state transition these values are the ones the session has afterwards.
  Requesting a poll for a session whose remote discriminator is 0 changes nothing.\<close>

theorem poll_commit_on_final:
  "(poll_active s \<noteq> 0 \<and> flags AND BFD_FLAG_FINAL \<noteq> 0 \<longrightarrow>
     (let poll_done = poll_active s AND NOT (poll_scheduled s);
          s1 = bfd_session_terminate_poll s;
          s' = bfd_session_process_ctl s flags otx orx now
      in des_min_tx_int s1 = (if poll_done AND BFD_POLL_TX \<noteq> 0 then des_min_tx_new s else des_min_tx_int s) \<and>
         req_min_rx_int s1 = (if poll_done AND BFD_POLL_RX \<noteq> 0 then req_min_rx_new s else req_min_rx_int s) \<and>
         poll_active s1 = poll_scheduled s \<and> poll_scheduled s1 = 0 \<and>
         s' = bfd_session_process_ctl s1 (flags AND NOT BFD_FLAG_FINAL) otx orx now \<and>
         (fst (bfd_next_state (loc_state s) (rem_state s)) = 0 \<longrightarrow>
            des_min_tx_int s' = des_min_tx_int s1 \<and> req_min_rx_int s' = req_min_rx_int s1 \<and>
            poll_active s' = poll_scheduled s \<and> poll_scheduled s' = 0))) \<and>
   (rem_id s = 0 \<longrightarrow> bfd_session_request_poll s request now = s)"
proof -
  have b: "rem_id s = 0 \<longrightarrow> bfd_session_request_poll s request now = s"
    by (simp add: bfd_session_request_poll_def)
  have a: "poll_active s \<noteq> 0 \<and> flags AND BFD_FLAG_FINAL \<noteq> 0 \<longrightarrow>
     (let poll_done = poll_active s AND NOT (poll_scheduled s);
          s1 = bfd_session_terminate_poll s;
          s' = bfd_session_process_ctl s flags otx orx now
      in des_min_tx_int s1 = (if poll_done AND BFD_POLL_TX \<noteq> 0 then des_min_tx_new s else des_min_tx_int s) \<and>
         req_min_rx_int s1 = (if poll_done AND BFD_POLL_RX \<noteq> 0 then req_min_rx_new s else req_min_rx_int s) \<and>
         poll_active s1 = poll_scheduled s \<and> poll_scheduled s1 = 0 \<and>
         s' = bfd_session_process_ctl s1 (flags AND NOT BFD_FLAG_FINAL) otx orx now \<and>
         (fst (bfd_next_state (loc_state s) (rem_state s)) = 0 \<longrightarrow>
            des_min_tx_int s' = des_min_tx_int s1 \<and> req_min_rx_int s' = req_min_rx_int s1 \<and>
            poll_active s' = poll_scheduled s \<and> poll_scheduled s' = 0))"
  proof (intro impI, elim conjE)
    assume pa: "poll_active s \<noteq> 0" and fl: "flags AND BFD_FLAG_FINAL \<noteq> 0"
    let ?s1 = "bfd_session_terminate_poll s"
    have eq: "bfd_session_process_ctl s flags otx orx now =
              bfd_session_process_ctl ?s1 (flags AND NOT BFD_FLAG_FINAL) otx orx now"
      by (rule process_ctl_after_terminate [OF pa fl])
    have nt: "fst (bfd_next_state (loc_state s) (rem_state s)) = 0 \<longrightarrow>
            des_min_tx_int (bfd_session_process_ctl s flags otx orx now) = des_min_tx_int ?s1 \<and>
            req_min_rx_int (bfd_session_process_ctl s flags otx orx now) = req_min_rx_int ?s1 \<and>
            poll_active (bfd_session_process_ctl s flags otx orx now) = poll_scheduled s \<and>
            poll_scheduled (bfd_session_process_ctl s flags otx orx now) = 0"
      unfolding eq
      using process_ctl_no_transition [of ?s1 "flags AND NOT BFD_FLAG_FINAL" otx orx now]
      by (simp add: flags_without_final terminate_poll_fields)
    show "(let poll_done = poll_active s AND NOT (poll_scheduled s);
          s1 = bfd_session_terminate_poll s;
          s' = bfd_session_process_ctl s flags otx orx now
      in des_min_tx_int s1 = (if poll_done AND BFD_POLL_TX \<noteq> 0 then des_min_tx_new s else des_min_tx_int s) \<and>
         req_min_rx_int s1 = (if poll_done AND BFD_POLL_RX \<noteq> 0 then req_min_rx_new s else req_min_rx_int s) \<and>
         poll_active s1 = poll_scheduled s \<and> poll_scheduled s1 = 0 \<and>
         s' = bfd_session_process_ctl s1 (flags AND NOT BFD_FLAG_FINAL) otx orx now \<and>
         (fst (bfd_next_state (loc_state s) (rem_state s)) = 0 \<longrightarrow>
            des_min_tx_int s' = des_min_tx_int s1 \<and> req_min_rx_int s' = req_min_rx_int s1 \<and>
            poll_active s' = poll_scheduled s \<and> poll_scheduled s' = 0))"
      unfolding Let_def using eq nt by (simp add: terminate_poll_fields)
  qed
  from a b show ?thesis by blast
qed

theorem poll_commit_on_final_witness:
  "poll_active polling_session \<noteq> 0 \<and> BFD_FLAG_FINAL AND BFD_FLAG_FINAL \<noteq> 0 \<and>
   fst (bfd_next_state (loc_state polling_session) (rem_state polling_session)) = 0 \<and>
   des_min_tx_int polling_session = 100000 \<and>
   des_min_tx_int (bfd_session_process_ctl polling_session BFD_FLAG_FINAL 100000 100000 5) = 300000 \<and>
   poll_active (bfd_session_process_ctl polling_session BFD_FLAG_FINAL 100000 100000 5) = 0 \<and>
   rem_id (bfd_new_session 0 (IP4 1) 0 bfd_default_iface no_options 1) = 0 \<and>
   bfd_session_request_poll (bfd_new_session 0 (IP4 1) 0 bfd_default_iface no_options 1) BFD_POLL_TX 2 =
     bfd_new_session 0 (IP4 1) 0 bfd_default_iface no_options 1"
proof -
  have h: "poll_active polling_session \<noteq> 0" "BFD_FLAG_FINAL AND BFD_FLAG_FINAL \<noteq> 0"
    "fst (bfd_next_state (loc_state polling_session) (rem_state polling_session)) = 0"
    "des_min_tx_int polling_session = 100000" "des_min_tx_new polling_session = 300000"
    "poll_scheduled polling_session = 0" "poll_active polling_session = BFD_POLL_TX"
    by (simp_all add: polling_session_def up_session_def bfd_next_state_def bfd_consts
          new_session_fields word_le_nat_alt)
  have n: "rem_id (bfd_new_session 0 (IP4 1) 0 bfd_default_iface no_options 1) = 0"
    by (simp add: new_session_fields)
  have c: "(poll_active polling_session AND NOT (poll_scheduled polling_session)) AND BFD_POLL_TX \<noteq> 0"
    by (simp add: h bfd_consts)
  have 1: "des_min_tx_int (bfd_session_process_ctl polling_session BFD_FLAG_FINAL 100000 100000 5) =
             des_min_tx_new polling_session"
    and 2: "poll_active (bfd_session_process_ctl polling_session BFD_FLAG_FINAL 100000 100000 5) =
             poll_scheduled polling_session"
    using h(1,2,3) c poll_commit_on_final [of polling_session BFD_FLAG_FINAL 100000 100000 5]
    unfolding Let_def by metis+
  have 3: "bfd_session_request_poll (bfd_new_session 0 (IP4 1) 0 bfd_default_iface no_options 1) BFD_POLL_TX 2 =
     bfd_new_session 0 (IP4 1) 0 bfd_default_iface no_options 1"
    using n poll_commit_on_final [of "bfd_new_session 0 (IP4 1) 0 bfd_default_iface no_options 1"
        0 0 0 2 BFD_POLL_TX]
    by blast
  show ?thesis
    using h n 1 2 3 by simp
qed

subsection \<open>Ordering of the current and the desired intervals\<close>

lemma interval_inv_eqI:
  "des_min_tx_int t = des_min_tx_int s \<Longrightarrow> des_min_tx_new t = des_min_tx_new s \<Longrightarrow>
   req_min_rx_int t = req_min_rx_int s \<Longrightarrow> req_min_rx_new t = req_min_rx_new s \<Longrightarrow>
   interval_inv t = interval_inv s"
  by (simp add: interval_inv_def)

lemma interval_inv_frame [simp]:
  "interval_inv (bfd_session_update_tx_interval s) = interval_inv s"
  "interval_inv (bfd_session_update_detection_time s k now) = interval_inv s"
  "interval_inv (bfd_session_control_tx_timer s r now) = interval_inv s"
  "interval_inv (bfd_session_request_poll s q now) = interval_inv s"
  "interval_inv (bfd_send_ctl s f) = interval_inv s"
  by (rule interval_inv_eqI; simp)+

lemma interval_inv_set_min_tx:
  "interval_inv s \<Longrightarrow> interval_inv (bfd_session_set_min_tx s v now)"
  by (auto simp add: bfd_session_set_min_tx_def Let_def interval_inv_def)

lemma interval_inv_set_min_rx:
  "interval_inv s \<Longrightarrow> interval_inv (bfd_session_set_min_rx s v now)"
  by (auto simp add: bfd_session_set_min_rx_def Let_def interval_inv_def)

lemma interval_inv_terminate_poll:
  "interval_inv s \<Longrightarrow> interval_inv (bfd_session_terminate_poll s)"
  by (simp add: bfd_session_terminate_poll_def Let_def interval_inv_def)

lemma interval_inv_update_state:
  assumes "interval_inv s"
  shows "interval_inv (bfd_session_update_state s st dg now)"
proof (cases "st = loc_state s")
  case True
  then show ?thesis using assms by (simp add: bfd_session_update_state_def)
next
  case False
  define s1 where "s1 = s\<lparr>loc_state := st, loc_diag := dg, last_state_change := now,
                         notify_linked := True\<rparr>"
  define s2 where "s2 = (if st = BFD_STATE_UP
                        then bfd_session_set_min_tx s1 (cf_min_tx_int (cf s1)) now else s1)"
  define s3 where "s3 = (if loc_state s = BFD_STATE_UP
                        then bfd_session_set_min_tx s2 (cf_idle_tx_int (cf s2)) now else s2)"
  have 1: "interval_inv s1" using assms by (simp add: s1_def interval_inv_def)
  have 2: "interval_inv s2" using 1 by (simp add: s2_def interval_inv_set_min_tx)
  have 3: "interval_inv s3" using 2 by (simp add: s3_def interval_inv_set_min_tx)
  have "bfd_session_update_state s st dg now =
          (if \<not> notify_linked s then s3\<lparr>notify_kicks := notify_kicks s3 + 1\<rparr> else s3)"
    using False by (simp add: bfd_session_update_state_def Let_def s1_def s2_def s3_def)
  then show ?thesis using 3 by (simp add: interval_inv_def)
qed

lemma interval_inv_process_ctl:
  assumes "interval_inv s"
  shows "interval_inv (bfd_session_process_ctl s flags otx orx now)"
proof -
  define s1 where "s1 = (if poll_active s \<noteq> 0 \<and> flags AND BFD_FLAG_FINAL \<noteq> 0
                then bfd_session_terminate_poll s else s)"
  define s2 where "s2 = (if des_min_tx_int s1 \<noteq> otx \<or> rem_min_rx_int s1 \<noteq> orx
                then bfd_session_update_tx_interval s1 else s1)"
  define s3 where "s3 = bfd_session_update_detection_time s2 True now"
  have 1: "interval_inv s1" using assms by (simp add: s1_def interval_inv_terminate_poll)
  have 3: "interval_inv s3" using 1 by (simp add: s3_def s2_def)
  show ?thesis
    unfolding bfd_session_process_ctl_def Let_def s1_def [symmetric] s2_def [symmetric] s3_def [symmetric]
    using 3 by (simp add: interval_inv_update_state split: prod.splits)
qed

lemma interval_inv_timeout:
  assumes "interval_inv s"
  shows "interval_inv (bfd_session_timeout s now)"
proof -
  have "interval_inv (s\<lparr>rem_state := BFD_STATE_DOWN, rem_id := 0, rem_min_tx_int := 0,
                 rem_min_rx_int := 1, rem_demand_mode := False, rem_detect_mult := 0,
                 rx_csn_known := False, poll_active := 0, poll_scheduled := 0\<rparr>)"
    using assms by (simp add: interval_inv_def)
  then show ?thesis
    by (simp add: bfd_session_timeout_def Let_def interval_inv_update_state)
qed

lemma interval_inv_reconfigure:
  assumes "interval_inv s"
  shows "interval_inv (bfd_reconfigure_session reqs s now)"
proof (cases "request_list s")
  case Nil
  then show ?thesis using assms by (simp add: bfd_reconfigure_session_def)
next
  case (Cons h hs)
  show ?thesis
  proof (cases "reqs h")
    case None
    then show ?thesis using assms Cons by (simp add: bfd_reconfigure_session_def)
  next
    case (Some req)
    have upd: "interval_inv (x\<lparr>detect_mult := m, passive := b\<rparr>) = interval_inv x" for x m b
      by (simp add: interval_inv_def)
    have 1: "interval_inv (s\<lparr>cf := c\<rparr>)" for c
      using assms by (simp add: interval_inv_def)
    show ?thesis
      using Cons Some
      by (simp add: bfd_reconfigure_session_def Let_def upd 1
            interval_inv_set_min_tx interval_inv_set_min_rx)
  qed
qed

lemma interval_inv_new_session:
  "interval_inv (bfd_new_session p a ifi ic ro now)"
proof -
  have "interval_inv (s\<lparr>request_list := rl, last_state_change := t\<rparr>) = interval_inv s" for s rl t
    by (simp add: interval_inv_def)
  then show ?thesis
    by (simp add: bfd_new_session_def Let_def) (simp add: interval_inv_def)
qed

lemma interval_inv_rx_ctl:
  assumes "interval_inv s"
  shows "interval_inv (bfd_rx_ctl s pkt now)"
proof -
  have "interval_inv (s\<lparr>rem_id := a, rem_state := b, rem_demand_mode := c, rem_min_tx_int := d,
                 rem_min_rx_int := e, rem_detect_mult := f\<rparr>)" for a b c d e f
    using assms by (simp add: interval_inv_def)
  then show ?thesis
    by (simp add: bfd_rx_ctl_def Let_def interval_inv_process_ctl)
qed

lemma reachable_interval_inv: "reachable s \<Longrightarrow> interval_inv s"
proof (induction rule: reachable.induct)
  case (created p a ifi ic ro now)
  show ?case by (rule interval_inv_new_session)
next
  case (received s pkt now)
  then show ?case by (simp add: interval_inv_rx_ctl)
next
  case (expired s now)
  then have "interval_inv (s\<lparr>hold_timer := tm_stop (hold_timer s)\<rparr>)"
    by (simp add: interval_inv_def)
  then show ?case by (simp add: bfd_hold_timer_hook_def interval_inv_timeout)
next
  case (transmitted s e now)
  then show ?case by (simp add: bfd_tx_timer_hook_def) (simp add: interval_inv_def)
next
  case (reconfigured s reqs ic now)
  then have "interval_inv (s\<lparr>ifa_cf := ic\<rparr>)" by (simp add: interval_inv_def)
  then show ?case by (rule interval_inv_reconfigure)
next
  case (attached s rl)
  then show ?case by (simp add: interval_inv_def)
next
  case (notified s b)
  then show ?case by (simp add: interval_inv_def)
qed

text \<open>C5. The desired TX interval in use never exceeds the one asked for, and the
  required RX interval in use is never below the one asked for: both orderings hold in
  the session \<open>bfd_add_session\<close> creates, are preserved by \<open>bfd_session_set_min_tx\<close>,
  by \<open>bfd_session_set_min_rx\<close> and by the commit in \<open>bfd_session_terminate_poll\<close>,
  and hold in every state a session reaches.\<close>

theorem interval_ordering:
  "interval_inv (bfd_new_session p a ifi ic ro now) \<and>
   (interval_inv s \<longrightarrow> interval_inv (bfd_session_set_min_tx s v now)) \<and>
   (interval_inv s \<longrightarrow> interval_inv (bfd_session_set_min_rx s v now)) \<and>
   (interval_inv s \<longrightarrow> interval_inv (bfd_session_terminate_poll s)) \<and>
   (reachable s \<longrightarrow> interval_inv s)"
  by (simp add: interval_inv_new_session interval_inv_set_min_tx interval_inv_set_min_rx
        interval_inv_terminate_poll reachable_interval_inv)

theorem interval_ordering_witness:
  "interval_inv up_session \<and>
   interval_inv (bfd_session_set_min_tx up_session 300000 5) \<and>
   des_min_tx_int (bfd_session_set_min_tx up_session 300000 5) = 100000 \<and>
   des_min_tx_new (bfd_session_set_min_tx up_session 300000 5) = 300000 \<and>
   interval_inv (bfd_session_set_min_rx up_session 5000 5) \<and>
   interval_inv (bfd_session_terminate_poll up_session) \<and>
   reachable (bfd_new_session 0 (IP4 1) 0 bfd_default_iface no_options 1) \<and>
   interval_inv (bfd_new_session 0 (IP4 1) 0 bfd_default_iface no_options 1)"
proof -
  have u: "interval_inv up_session"
    by (simp add: interval_inv_def up_session_def new_session_fields example_defs)
  have r: "reachable (bfd_new_session 0 (IP4 1) 0 bfd_default_iface no_options 1)"
    by (rule reachable.created)
  have v: "des_min_tx_int (bfd_session_set_min_tx up_session 300000 5) = 100000"
    "des_min_tx_new (bfd_session_set_min_tx up_session 300000 5) = 300000"
    by (simp_all add: bfd_session_set_min_tx_def Let_def up_session_def bfd_consts)
  show ?thesis
    using u r v
      interval_ordering [where s = up_session and v = 300000 and now = 5]
      interval_ordering [where s = up_session and v = 5000 and now = 5]
      interval_ordering [where s = "bfd_new_session 0 (IP4 1) 0 bfd_default_iface no_options 1"]
    by blast
qed

subsection \<open>The TX interval\<close>

lemma sub_div4: "uint ((T::u32) - T div 4) = uint T - uint T div 4"
proof -
  have "uint (T div 4) \<le> uint T"
    by (simp add: uint_div) (smt (verit) uint_ge_0 zdiv_mono2 div_by_1)
  then show ?thesis
    by (simp add: uint_sub_lem [THEN iffD1] uint_div)
qed

lemma sub_div10: "uint ((T::u32) - T div 10) = uint T - uint T div 10"
proof -
  have "uint (T div 10) \<le> uint T"
    by (simp add: uint_div) (smt (verit) uint_ge_0 zdiv_mono2 div_by_1)
  then show ?thesis
    by (simp add: uint_sub_lem [THEN iffD1] uint_div)
qed

lemma sub_hl: "uint (((T::u32) - T div 10) - (T - T div 4)) = uint T div 4 - uint T div 10"
proof -
  have "uint (T - T div 4) \<le> uint (T - T div 10)"
    unfolding sub_div4 sub_div10 using uint_ge_0 [of T] by (smt (verit) zdiv_mono2)
  then have "uint ((T - T div 10) - (T - T div 4)) = uint (T - T div 10) - uint (T - T div 4)"
    by (rule uint_sub_lem [THEN iffD1])
  then show ?thesis by (simp add: sub_div4 sub_div10)
qed

text \<open>C6, as the code has it. With \<open>T = max(des_min_tx_int, rem_min_rx_int)\<close>,
  \<open>bfd_session_update_tx_interval\<close> gives the TX timer the base \<open>T - T div 4\<close> and the
  randomisation range \<open>(T - T div 10) - (T - T div 4)\<close>, computed without wrap-around.
  The base is 75% of \<open>T\<close> rounded up to a whole microsecond and base plus range is 90%
  of \<open>T\<close> rounded up, so the window starts at or above \<open>0.75 T\<close> and ends below
  \<open>0.90 T + 1\<close>. When a previous transmit time is recorded the timer is set to fire at
  that time plus the base.\<close>

theorem tx_interval_window:
  "(let T = max (des_min_tx_int s) (rem_min_rx_int s);
        t = tx_timer (bfd_session_update_tx_interval s)
    in recurrent t = T - T div 4 \<and>
       randomize t = (T - T div 10) - (T - T div 4) \<and>
       3 * uint T \<le> 4 * uint (recurrent t) \<and>
       4 * uint (recurrent t) < 3 * uint T + 4 \<and>
       9 * uint T \<le> 10 * (uint (recurrent t) + uint (randomize t)) \<and>
       10 * (uint (recurrent t) + uint (randomize t)) < 9 * uint T + 10 \<and>
       (last_tx s \<noteq> 0 \<longrightarrow> expires t = Some (last_tx s + uint (recurrent t))))"
proof -
  define T where "T = max (des_min_tx_int s) (rem_min_rx_int s)"
  define t where "t = tx_timer (bfd_session_update_tx_interval s)"
  have r: "recurrent t = T - T div 4" and z: "randomize t = (T - T div 10) - (T - T div 4)"
    by (simp_all add: t_def T_def bfd_session_update_tx_interval_def Let_def tm_set_def)
  have e: "last_tx s \<noteq> 0 \<longrightarrow> expires t = Some (last_tx s + uint (recurrent t))"
    by (simp add: t_def T_def bfd_session_update_tx_interval_def Let_def tm_set_def)
  have a: "3 * uint T \<le> 4 * uint (recurrent t)" "4 * uint (recurrent t) < 3 * uint T + 4"
    unfolding r sub_div4 by presburger+
  have b: "9 * uint T \<le> 10 * (uint (recurrent t) + uint (randomize t))"
     "10 * (uint (recurrent t) + uint (randomize t)) < 9 * uint T + 10"
    unfolding r z sub_div4 sub_hl by presburger+
  from r z e a b show ?thesis
    unfolding Let_def T_def [symmetric] t_def [symmetric] by blast
qed

lemma odd_interval_session_fields:
  "des_min_tx_int odd_interval_session = 1000001"
  "rem_min_rx_int odd_interval_session = 1"
  "last_tx odd_interval_session = 2"
  by (simp_all add: odd_interval_session_def bfd_tx_timer_hook_def new_session_fields example_defs)

theorem tx_interval_window_witness:
  "last_tx odd_interval_session \<noteq> 0 \<and>
   expires (tx_timer (bfd_session_update_tx_interval odd_interval_session)) = Some 750003"
proof -
  have m: "max (des_min_tx_int odd_interval_session) (rem_min_rx_int odd_interval_session) = 1000001"
    by (simp add: odd_interval_session_fields)
  show ?thesis
    using tx_interval_window [of odd_interval_session]
    unfolding Let_def m by (simp add: odd_interval_session_fields)
qed

text \<open>The window of C6 at \<open>T = 1000001\<close>: the timer's base is 750001 and its range
  150000, so the latest fire is 900001 microseconds after the previous transmission,
  which is more than 90% of \<open>T\<close>.\<close>

theorem tx_interval_upper_bound_counterexample:
  "max (des_min_tx_int odd_interval_session) (rem_min_rx_int odd_interval_session) = 1000001 \<and>
   last_tx odd_interval_session = 2 \<and>
   recurrent (tx_timer (bfd_session_update_tx_interval odd_interval_session)) = 750001 \<and>
   randomize (tx_timer (bfd_session_update_tx_interval odd_interval_session)) = 150000 \<and>
   \<not> 10 * ((750001::int) + 150000) \<le> 9 * 1000001"
  by (simp add: bfd_session_update_tx_interval_def Let_def tm_set_def odd_interval_session_fields)

subsection \<open>When the TX timer is stopped\<close>

lemma tx_timer_inv_control:
  "tx_timer_inv (bfd_session_control_tx_timer s r now)"
  by (auto simp add: tx_timer_inv_def bfd_session_control_tx_timer_def Let_def tm_stop_def tm_active_def)

lemma tx_timer_inv_send_ctl [simp]:
  "tx_timer_inv (bfd_send_ctl s f) = tx_timer_inv s"
  by (simp add: tx_timer_inv_def)

lemma tx_timer_inv_new_session:
  "tx_timer_inv (bfd_new_session p a ifi ic ro now)"
proof -
  have "tx_timer_inv (s\<lparr>request_list := rl, last_state_change := t\<rparr>) = tx_timer_inv s" for s rl t
    by (simp add: tx_timer_inv_def)
  then show ?thesis
    by (simp add: bfd_new_session_def Let_def tx_timer_inv_control)
qed

lemma tx_timer_inv_timeout:
  "tx_timer_inv (bfd_session_timeout s now)"
  by (simp add: bfd_session_timeout_def Let_def tx_timer_inv_control)

lemma tx_timer_inv_process_ctl:
  "loc_state s \<noteq> BFD_STATE_ADMIN_DOWN \<Longrightarrow>
   tx_timer_inv (bfd_session_process_ctl s flags otx orx now)"
  by (simp add: bfd_session_process_ctl_def Let_def tx_timer_inv_control split: prod.splits)

lemma tx_timer_inv_rx_ctl:
  "loc_state s \<noteq> BFD_STATE_ADMIN_DOWN \<Longrightarrow> tx_timer_inv (bfd_rx_ctl s pkt now)"
  by (simp add: bfd_rx_ctl_def Let_def tx_timer_inv_process_ctl)

lemma tx_timer_inv_reconfigure:
  "tx_timer_inv s \<Longrightarrow> tx_timer_inv (bfd_reconfigure_session reqs s now)"
  by (simp add: bfd_reconfigure_session_def Let_def tx_timer_inv_control
        split: list.splits option.splits)

lemma reconfigure_loc_state:
  "loc_state (bfd_reconfigure_session reqs s now) = loc_state s"
  by (simp add: bfd_reconfigure_session_def Let_def split: list.splits option.splits)

lemma timeout_loc_state:
  "loc_state (bfd_session_timeout s now) = BFD_STATE_DOWN"
  by (simp add: bfd_session_timeout_def Let_def update_state_loc)

lemma next_state_not_admin_down:
  "fst (bfd_next_state l r) \<noteq> 0 \<Longrightarrow> fst (bfd_next_state l r) \<noteq> BFD_STATE_ADMIN_DOWN"
  by (simp add: BFD_STATE_ADMIN_DOWN_def)

lemma rx_ctl_loc_state:
  "loc_state s \<noteq> BFD_STATE_ADMIN_DOWN \<Longrightarrow> loc_state (bfd_rx_ctl s pkt now) \<noteq> BFD_STATE_ADMIN_DOWN"
  by (simp add: bfd_rx_ctl_def Let_def process_ctl_loc_state next_state_not_admin_down)

lemma reachable_not_admin_down:
  "reachable s \<Longrightarrow> loc_state s \<noteq> BFD_STATE_ADMIN_DOWN"
proof (induction rule: reachable.induct)
  case (created p a ifi ic ro now)
  show ?case by (simp add: new_session_loc_state bfd_consts)
next
  case (received s pkt now)
  from received.IH show ?case by (rule rx_ctl_loc_state)
next
  case (expired s now)
  show ?case by (simp add: bfd_hold_timer_hook_def timeout_loc_state bfd_consts)
next
  case (transmitted s e now)
  then show ?case by (simp add: bfd_tx_timer_hook_def)
next
  case (reconfigured s reqs ic now)
  then show ?case by (simp add: reconfigure_loc_state)
next
  case (attached s rl)
  then show ?case by simp
next
  case (notified s b)
  then show ?case by simp
qed

lemma reachable_tx_timer_inv: "reachable s \<Longrightarrow> tx_timer_inv s"
proof (induction rule: reachable.induct)
  case (created p a ifi ic ro now)
  show ?case by (rule tx_timer_inv_new_session)
next
  case (received s pkt now)
  then show ?case by (simp add: tx_timer_inv_rx_ctl reachable_not_admin_down)
next
  case (expired s now)
  show ?case by (simp add: bfd_hold_timer_hook_def tx_timer_inv_timeout)
next
  case (transmitted s e now)
  then show ?case
    by (simp add: bfd_tx_timer_hook_def) (auto simp add: tx_timer_inv_def)
next
  case (reconfigured s reqs ic now)
  then have "tx_timer_inv (s\<lparr>ifa_cf := ic\<rparr>)" by (simp add: tx_timer_inv_def)
  then show ?case by (rule tx_timer_inv_reconfigure)
next
  case (attached s rl)
  then show ?case by (simp add: tx_timer_inv_def)
next
  case (notified s b)
  then show ?case by (simp add: tx_timer_inv_def)
qed

text \<open>C4. The TX timer is not armed while the remote minimum RX interval is 0, nor
  while the session is passive and the remote discriminator is 0.
  \<open>bfd_session_control_tx_timer\<close> establishes this whatever the session was; it is the
  last step of session creation, of the detection timeout, of packet processing and of
  reconfiguration, so the property holds in every state a session reaches, and again
  after a packet has overwritten the remote fields or a reconfiguration the passive
  flag.\<close>

theorem tx_timer_stopped:
  "tx_timer_inv (bfd_session_control_tx_timer s reset now) \<and>
   tx_timer_inv (bfd_new_session p a ifi ic ro now) \<and>
   tx_timer_inv (bfd_session_timeout s now) \<and>
   (reachable s \<longrightarrow>
      tx_timer_inv s \<and> tx_timer_inv (bfd_rx_ctl s pkt now) \<and>
      tx_timer_inv (bfd_reconfigure_session reqs s now))"
  by (simp add: tx_timer_inv_control tx_timer_inv_new_session tx_timer_inv_timeout
        reachable_tx_timer_inv tx_timer_inv_rx_ctl reachable_not_admin_down
        tx_timer_inv_reconfigure)

theorem tx_timer_stopped_witness:
  "reachable (bfd_new_session 0 (IP4 1) 0 bfd_default_iface
       (no_options\<lparr>opt_passive := 1, opt_passive_set := 1\<rparr>) 1) \<and>
   passive (bfd_new_session 0 (IP4 1) 0 bfd_default_iface
       (no_options\<lparr>opt_passive := 1, opt_passive_set := 1\<rparr>) 1) \<and>
   rem_id (bfd_new_session 0 (IP4 1) 0 bfd_default_iface
       (no_options\<lparr>opt_passive := 1, opt_passive_set := 1\<rparr>) 1) = 0 \<and>
   \<not> tm_active (tx_timer (bfd_new_session 0 (IP4 1) 0 bfd_default_iface
       (no_options\<lparr>opt_passive := 1, opt_passive_set := 1\<rparr>) 1))"
proof -
  let ?P = "bfd_new_session 0 (IP4 1) 0 bfd_default_iface
       (no_options\<lparr>opt_passive := 1, opt_passive_set := 1\<rparr>) 1"
  have r: "reachable ?P" by (rule reachable.created)
  have f: "passive ?P" "rem_id ?P = 0"
    by (simp_all add: new_session_fields example_defs)
  from r tx_timer_stopped [where s = ?P] have "tx_timer_inv ?P" by blast
  with f have "\<not> tm_active (tx_timer ?P)" by (simp add: tx_timer_inv_def)
  with r f show ?thesis by blast
qed

section \<open>Properties of the request broker\<close>

subsection \<open>Updating a request\<close>




lemma update_request_reconfigures:
  assumes "requests w h = Some req" "ro \<noteq> opts req" "session req = Some sid"
    and "sessions w sid \<noteq> None"
  shows "reconfigure_calls (bfd_update_request w h ro now) = reconfigure_calls w + 1"
  using assms
  by (auto simp add: bfd_update_request_def Let_def reconfigure_calls_def)

text \<open>The comparison is on the address of the password list, as \<open>memcmp\<close> has it:
  options that name another list, whatever keys it holds, are stored and reconfigure
  the session.\<close>

lemma update_request_other_list:
  assumes "requests w h = Some req" "opt_passwords ro \<noteq> opt_passwords (opts req)"
    and "session req = Some sid" "sessions w sid \<noteq> None"
  shows "reconfigure_calls (bfd_update_request w h ro now) = reconfigure_calls w + 1"
proof -
  have "ro \<noteq> opts req" using assms(2) by auto
  then show ?thesis by (rule update_request_reconfigures [OF assms(1) _ assms(3,4)])
qed



subsection \<open>Creating a request\<close>

lemma notify_request_no_hook:
  "requests w h = Some req \<Longrightarrow> hook req = None \<Longrightarrow>
   events (bfd_notify_request w h st r d) = events w"
  by (simp add: bfd_notify_request_def bfd_request_notify_def Let_def)

lemma rem_request_node_frame [simp]:
  "events (rem_request_node w h) = events w"
  "requests (rem_request_node w h) = requests w"
  by (simp_all add: rem_request_node_def split: option.splits)

lemma add_session_frame [simp]:
  "events (fst (bfd_add_session w p a l ifc ro now)) = events w"
  "requests (fst (bfd_add_session w p a l ifc ro now)) = requests w"
  by (simp_all add: bfd_add_session_def Let_def)

lemma add_request_rejected:
  assumes "\<not> snd (bfd_add_request w p h now)"
  shows "fst (bfd_add_request w p h now) = w"
proof (cases "requests w h")
  case None
  then show ?thesis by (simp add: bfd_add_request_def)
next
  case (Some req)
  let ?ifi = "case req_iface req of Some i \<Rightarrow> i | None \<Rightarrow> 0"
  obtain w1 sid where ws:
    "(case bfd_find_session_by_addr w p (req_addr req) ?ifi of
        Some sid \<Rightarrow> (w, sid)
      | None \<Rightarrow> bfd_add_session w p (req_addr req) (req_local req)
                  (req_iface req) (opts req) now) = (w1, sid)"
    by fastforce
  show ?thesis
    using assms Some ws
    by (cases "sessions (rem_request_node w1 h) sid")
       (simp_all add: bfd_add_request_def Let_def split: if_splits)
qed

lemma add_request_no_hook:
  assumes r: "requests w h = Some req" and n: "hook req = None"
  shows "events (fst (bfd_add_request w p h now)) = events w"
proof -
  let ?ifi = "case req_iface req of Some i \<Rightarrow> i | None \<Rightarrow> 0"
  obtain w1 sid where ws:
    "(case bfd_find_session_by_addr w p (req_addr req) ?ifi of
        Some sid \<Rightarrow> (w, sid)
      | None \<Rightarrow> bfd_add_session w p (req_addr req) (req_local req)
                  (req_iface req) (opts req) now) = (w1, sid)"
    by fastforce
  have e1: "events w1 = events w" and r1: "requests w1 = requests w"
    using ws by (auto simp add: bfd_add_session_def Let_def split: option.splits)
  show ?thesis
  proof (cases "sessions (rem_request_node w1 h) sid")
    case None
    then show ?thesis
      using r ws e1 by (simp add: bfd_add_request_def Let_def)
  next
    case (Some s)
    let ?w3 = "(rem_request_node w1 h)\<lparr>sessions := (sessions (rem_request_node w1 h))(sid \<mapsto> s\<lparr>request_list := request_list s @ [h]\<rparr>),
                                 requests := (requests (rem_request_node w1 h))(h \<mapsto> req\<lparr>session := Some sid\<rparr>)\<rparr>"
    have "events (bfd_notify_request ?w3 h (loc_state s) (rem_state s) (loc_diag s)) = events ?w3"
      by (rule notify_request_no_hook [where req = "req\<lparr>session := Some sid\<rparr>"]) (simp_all add: n)
    then show ?thesis
      using r ws e1 Some by (simp add: bfd_add_request_def Let_def)
  qed
qed


lemma differs_by_delivery_refl [simp]: "differs_by_delivery req req"
  by (simp add: differs_by_delivery_def)

lemma differs_by_delivery_hook: "differs_by_delivery req r \<Longrightarrow> hook r = hook req"
  unfolding differs_by_delivery_def by (drule arg_cong [where f = hook]) simp


lemma differs_by_delivery_trans:
  "differs_by_delivery a b \<Longrightarrow> differs_by_delivery b c \<Longrightarrow> differs_by_delivery a c"
  by (cases a, cases b, cases c) (simp add: differs_by_delivery_def)

lemma differs_by_delivery_session [simp]:
  "differs_by_delivery req (req\<lparr>session := x\<rparr>)"
  by (simp add: differs_by_delivery_def)

lemma request_notify_differs:
  "differs_by_delivery req (fst (bfd_request_notify req st r d))"
  by (simp add: bfd_request_notify_def Let_def differs_by_delivery_def)

lemma notify_request_stored:
  "requests w h = Some req \<Longrightarrow> hook req = None \<Longrightarrow>
   bfd_notify_request w h st r d = w\<lparr>requests := (requests w)(h \<mapsto> fst (bfd_request_notify req st r d))\<rparr>"
  by (simp add: bfd_notify_request_def bfd_request_notify_def Let_def)

lemma add_request_stored:
  assumes r: "requests w h = Some req" and n: "hook req = None"
  shows "\<exists>r. requests (fst (bfd_add_request w p h now)) h = Some r \<and> differs_by_delivery req r"
proof -
  let ?ifi = "case req_iface req of Some i \<Rightarrow> i | None \<Rightarrow> 0"
  obtain w1 sid where ws:
    "(case bfd_find_session_by_addr w p (req_addr req) ?ifi of
        Some sid \<Rightarrow> (w, sid)
      | None \<Rightarrow> bfd_add_session w p (req_addr req) (req_local req)
                  (req_iface req) (opts req) now) = (w1, sid)"
    by fastforce
  have r1: "requests w1 = requests w"
    using ws by (auto simp add: bfd_add_session_def Let_def split: option.splits)
  show ?thesis
  proof (cases "sessions (rem_request_node w1 h) sid")
    case None
    then show ?thesis
      using r ws r1 by (simp add: bfd_add_request_def Let_def)
  next
    case (Some s)
    let ?w3 = "(rem_request_node w1 h)\<lparr>sessions := (sessions (rem_request_node w1 h))(sid \<mapsto> s\<lparr>request_list := request_list s @ [h]\<rparr>),
                                 requests := (requests (rem_request_node w1 h))(h \<mapsto> req\<lparr>session := Some sid\<rparr>)\<rparr>"
    have st: "bfd_notify_request ?w3 h (loc_state s) (rem_state s) (loc_diag s) =
          ?w3\<lparr>requests := (requests ?w3)(h \<mapsto> fst (bfd_request_notify (req\<lparr>session := Some sid\<rparr>)
                                  (loc_state s) (rem_state s) (loc_diag s)))\<rparr>"
      by (rule notify_request_stored) (simp_all add: n)
    have d: "differs_by_delivery req (fst (bfd_request_notify (req\<lparr>session := Some sid\<rparr>)
                                  (loc_state s) (rem_state s) (loc_diag s)))"
      by (rule differs_by_delivery_trans [OF differs_by_delivery_session request_notify_differs])
    have fin: "\<exists>r. requests (bfd_notify_request ?w3 h (loc_state s) (rem_state s) (loc_diag s)) h = Some r \<and>
                 differs_by_delivery req r"
      unfolding st using d by simp
    show ?thesis
      using r ws r1 Some fin by (simp add: bfd_add_request_def Let_def)
  qed
qed

lemma submit_walk_rejected:
  "\<not> snd (submit_walk w ps h now) \<Longrightarrow> fst (submit_walk w ps h now) = w"
proof (induction ps)
  case Nil
  show ?case by simp
next
  case (Cons p ps)
  obtain w1 b where a: "bfd_add_request w p h now = (w1, b)" by fastforce
  show ?case
  proof (cases b)
    case True
    then show ?thesis using Cons.prems a by simp
  next
    case False
    then have "w1 = w" using add_request_rejected [of w p h now] a by simp
    then show ?thesis using Cons a False by simp
  qed
qed

lemma submit_walk_quiet:
  assumes r: "requests w h = Some req" and n: "hook req = None"
  shows "events (fst (submit_walk w ps h now)) = events w \<and>
         (\<exists>r. requests (fst (submit_walk w ps h now)) h = Some r \<and> differs_by_delivery req r)"
proof (induction ps)
  case Nil
  show ?case using r by simp
next
  case (Cons p ps)
  obtain w1 b where a: "bfd_add_request w p h now = (w1, b)" by fastforce
  show ?case
  proof (cases b)
    case True
    then show ?thesis
      using a add_request_no_hook [OF r n, of p now] add_request_stored [OF r n, of p now]
      by simp
  next
    case False
    then have "w1 = w" using add_request_rejected [of w p h now] a by simp
    then show ?thesis using Cons a False by simp
  qed
qed

lemma submit_request_quiet:
  assumes r: "requests w h = Some req" and n: "hook req = None"
  shows "events (bfd_submit_request w h now) = events w \<and>
         (\<exists>r. requests (bfd_submit_request w h now) h = Some r \<and> differs_by_delivery req r)"
proof (cases "snd (submit_walk w (bfd_proto_list w) h now)")
  case True
  then show ?thesis
    using submit_walk_quiet [OF r n, of "bfd_proto_list w" now]
    by (cases "submit_walk w (bfd_proto_list w) h now") (simp add: bfd_submit_request_def)
next
  case False
  then have same: "fst (submit_walk w (bfd_proto_list w) h now) = w"
    by (rule submit_walk_rejected)
  let ?w2 = "rem_request_node w h"
  let ?w3 = "?w2\<lparr>bfd_wait_list := bfd_wait_list ?w2 @ [h],
                     requests := (\<lambda>k. if k = h then map_option (\<lambda>r. r\<lparr>session := None\<rparr>) (requests ?w2 h)
                                       else requests ?w2 k)\<rparr>"
  have eq: "bfd_submit_request w h now =
            bfd_notify_request ?w3 h BFD_STATE_ADMIN_DOWN BFD_STATE_ADMIN_DOWN 0"
    using False same
    by (cases "submit_walk w (bfd_proto_list w) h now") (simp add: bfd_submit_request_def Let_def)
  have st: "bfd_notify_request ?w3 h BFD_STATE_ADMIN_DOWN BFD_STATE_ADMIN_DOWN 0 =
         ?w3\<lparr>requests := (requests ?w3)(h \<mapsto> fst (bfd_request_notify (req\<lparr>session := None\<rparr>)
                                 BFD_STATE_ADMIN_DOWN BFD_STATE_ADMIN_DOWN 0))\<rparr>"
    by (rule notify_request_stored) (simp_all add: r n)
  have d: "differs_by_delivery req (fst (bfd_request_notify (req\<lparr>session := None\<rparr>)
                                 BFD_STATE_ADMIN_DOWN BFD_STATE_ADMIN_DOWN 0))"
    by (rule differs_by_delivery_trans [OF differs_by_delivery_session request_notify_differs])
  show ?thesis unfolding eq st using d by simp
qed

lemma submit_request_parked:
  assumes r: "requests w h = Some req" and n: "hook req = None"
    and z: "state req = BFD_STATE_ADMIN_DOWN" and s: "session req = None"
    and rej: "\<not> snd (submit_walk w (bfd_proto_list w) h now)"
  shows "requests (bfd_submit_request w h now) h = Some req \<and>
         h \<in> set (bfd_wait_list (bfd_submit_request w h now))"
proof -
  have same: "fst (submit_walk w (bfd_proto_list w) h now) = w"
    using rej by (rule submit_walk_rejected)
  let ?w2 = "rem_request_node w h"
  let ?w3 = "?w2\<lparr>bfd_wait_list := bfd_wait_list ?w2 @ [h],
                     requests := (\<lambda>k. if k = h then map_option (\<lambda>r. r\<lparr>session := None\<rparr>) (requests ?w2 h)
                                       else requests ?w2 k)\<rparr>"
  have eq: "bfd_submit_request w h now =
            bfd_notify_request ?w3 h BFD_STATE_ADMIN_DOWN BFD_STATE_ADMIN_DOWN 0"
    using rej same
    by (cases "submit_walk w (bfd_proto_list w) h now") (simp add: bfd_submit_request_def Let_def)
  have st: "bfd_notify_request ?w3 h BFD_STATE_ADMIN_DOWN BFD_STATE_ADMIN_DOWN 0 =
         ?w3\<lparr>requests := (requests ?w3)(h \<mapsto> fst (bfd_request_notify (req\<lparr>session := None\<rparr>)
                                 BFD_STATE_ADMIN_DOWN BFD_STATE_ADMIN_DOWN 0))\<rparr>"
    by (rule notify_request_stored) (simp_all add: r n)
  have u: "req\<lparr>session := None\<rparr> = req" using s by simp
  show ?thesis unfolding eq st u using z by (simp add: bfd_request_notify_def)
qed

text \<open>C10. \<open>bfd_request_session\<close> submits the request before it installs the
  caller's hook, so no hook is called during the call, whatever the engines do with
  the request: the log of calls is unchanged. The request stored afterwards is the new
  request with the caller's hook and data, apart from the fields that attachment and
  notification write (\<open>session\<close>, \<open>state\<close>, \<open>diag\<close>, \<open>old_state\<close>, \<open>down\<close>). When no
  engine accepts the request it is parked on the wait list, in state AdminDown.\<close>

theorem request_session_initial_notification:
  "events (bfd_request_session w h a l ifc v hk d ro now) = events w \<and>
   (\<exists>r. requests (bfd_request_session w h a l ifc v hk d ro now) h = Some (r\<lparr>hook := hk, data := d\<rparr>) \<and>
        differs_by_delivery (new_request a l ifc v ro) r) \<and>
   (\<not> snd (submit_walk (w\<lparr>requests := (requests w)(h \<mapsto> new_request a l ifc v ro)\<rparr>)
              (bfd_proto_list w) h now) \<longrightarrow>
      requests (bfd_request_session w h a l ifc v hk d ro now) h =
        Some ((new_request a l ifc v ro)\<lparr>hook := hk, data := d\<rparr>) \<and>
      state (new_request a l ifc v ro) = BFD_STATE_ADMIN_DOWN \<and>
      h \<in> set (bfd_wait_list (bfd_request_session w h a l ifc v hk d ro now)))"
proof -
  let ?w0 = "w\<lparr>requests := (requests w)(h \<mapsto> new_request a l ifc v ro)\<rparr>"
  have r: "requests ?w0 h = Some (new_request a l ifc v ro)" by simp
  have n: "hook (new_request a l ifc v ro) = None" by (simp add: new_request_def)
  have z: "state (new_request a l ifc v ro) = BFD_STATE_ADMIN_DOWN"
    "session (new_request a l ifc v ro) = None"
    by (simp_all add: new_request_def bfd_consts)
  from submit_request_quiet [OF r n, of now]
  have 1: "events (bfd_request_session w h a l ifc v hk d ro now) = events w"
    and 2: "\<exists>r. requests (bfd_request_session w h a l ifc v hk d ro now) h = Some (r\<lparr>hook := hk, data := d\<rparr>) \<and>
        differs_by_delivery (new_request a l ifc v ro) r"
    by (auto simp add: bfd_request_session_def Let_def)
  have 3: "\<not> snd (submit_walk ?w0 (bfd_proto_list w) h now) \<longrightarrow>
      requests (bfd_request_session w h a l ifc v hk d ro now) h =
        Some ((new_request a l ifc v ro)\<lparr>hook := hk, data := d\<rparr>) \<and>
      h \<in> set (bfd_wait_list (bfd_request_session w h a l ifc v hk d ro now))"
  proof
    assume rej: "\<not> snd (submit_walk ?w0 (bfd_proto_list w) h now)"
    then have "\<not> snd (submit_walk ?w0 (bfd_proto_list ?w0) h now)" by simp
    from submit_request_parked [OF r n z this]
    show "requests (bfd_request_session w h a l ifc v hk d ro now) h =
        Some ((new_request a l ifc v ro)\<lparr>hook := hk, data := d\<rparr>) \<and>
      h \<in> set (bfd_wait_list (bfd_request_session w h a l ifc v hk d ro now))"
      by (simp add: bfd_request_session_def Let_def)
  qed
  from 1 2 3 z show ?thesis by blast
qed

theorem request_session_initial_notification_witness:
  "\<not> snd (submit_walk (empty_world\<lparr>requests := (requests empty_world)(0 \<mapsto> new_request (IP4 1) (IP4 2) None None None)\<rparr>)
            (bfd_proto_list empty_world) 0 1) \<and>
   events (bfd_request_session empty_world 0 (IP4 1) (IP4 2) None None (Some Hook_observe) 0 None 1) = [] \<and>
   0 \<in> set (bfd_wait_list (bfd_request_session empty_world 0 (IP4 1) (IP4 2) None None (Some Hook_observe) 0 None 1))"
proof -
  have e: "bfd_proto_list empty_world = []" "events empty_world = []"
    by (simp_all add: empty_world_def)
  show ?thesis
    using request_session_initial_notification
            [of empty_world 0 "IP4 1" "IP4 2" None None "Some Hook_observe" 0 None 1]
    by (simp add: e)
qed

subsection \<open>Releasing a request from its own callback\<close>






















subsection \<open>The notification contract\<close>

text \<open>What the notifier appends to the log. Removing a session, freeing a request
  and releasing it log nothing; notifying one request logs its delivery, computed from
  the request as stored when it is reached; a walk over distinct requests, and so the
  notifier's visit of one session, logs the deliveries of the requests in list order,
  each with the state, remote state and diagnostic the notifier read from the session
  before the walk.\<close>

lemma remove_session_frame [simp]:
  "events (bfd_remove_session w p sid) = events w"
  "requests (bfd_remove_session w p sid) = requests w"
  by (simp_all add: bfd_remove_session_def Let_def)

lemma request_free_frame [simp]:
  "events (bfd_request_free w h) = events w"
  "requests (bfd_request_free w h) = requests w"
  by (simp_all add: bfd_request_free_def Let_def split: option.splits)

lemma rfree_frame [simp]:
  "events (rfree w h) = events w"
  "requests (rfree w h) = (requests w)(h := None)"
  by (simp_all add: rfree_def Let_def)

lemma notify_request_events:
  "events (bfd_notify_request w h st r d) =
     events w @ (case requests w h of None \<Rightarrow> [] | Some req \<Rightarrow> delivery h req st r d)"
  by (auto simp add: bfd_notify_request_def bfd_request_notify_def delivery_def Let_def
        run_hook_def split: option.splits hook_fn.splits)

lemma notify_request_others:
  "j \<noteq> h \<Longrightarrow> requests (bfd_notify_request w h st r d) j = requests w j"
  by (auto simp add: bfd_notify_request_def bfd_request_notify_def Let_def
        run_hook_def split: option.splits hook_fn.splits)

lemma notify_requests_events:
  "distinct ks \<Longrightarrow>
   events (notify_requests w ks st r d) =
     events w @ concat (map (\<lambda>k. case requests w k of None \<Rightarrow> []
                                  | Some rk \<Rightarrow> delivery k rk st r d) ks)"
proof (induction ks arbitrary: w)
  case Nil
  show ?case by simp
next
  case (Cons k ks)
  let ?w' = "bfd_notify_request w k st r d"
  have d: "distinct ks" and nk: "k \<notin> set ks" using Cons.prems by simp_all
  have same: "map (\<lambda>j. case requests ?w' j of None \<Rightarrow> [] | Some rk \<Rightarrow> delivery j rk st r d) ks =
              map (\<lambda>j. case requests w j of None \<Rightarrow> [] | Some rk \<Rightarrow> delivery j rk st r d) ks"
  proof (rule map_cong [OF refl])
    fix j assume "j \<in> set ks"
    then have "j \<noteq> k" using nk by auto
    then show "(case requests ?w' j of None \<Rightarrow> [] | Some rk \<Rightarrow> delivery j rk st r d) =
               (case requests w j of None \<Rightarrow> [] | Some rk \<Rightarrow> delivery j rk st r d)"
      by (simp add: notify_request_others)
  qed
  show ?case
    using Cons.IH [OF d, of ?w'] by (simp add: same notify_request_events)
qed

lemma notify_session_events:
  assumes "sessions w sid = Some s" "distinct (request_list s)"
  shows "events (bfd_notify_session w p sid) =
     events w @ concat (map (\<lambda>k. case requests w k of None \<Rightarrow> []
                                  | Some rk \<Rightarrow> delivery k rk (loc_state s) (rem_state s) (loc_diag s))
                            (request_list s))"
proof -
  define w1 where "w1 = w\<lparr>sessions := (sessions w)(sid \<mapsto> s\<lparr>notify_linked := False, notify_running := True\<rparr>)\<rparr>"
  define w2 where "w2 = notify_requests w1 (request_list s) (loc_state s) (rem_state s) (loc_diag s)"
  have e: "events w2 = events w @ concat (map (\<lambda>k. case requests w k of None \<Rightarrow> []
                                  | Some rk \<Rightarrow> delivery k rk (loc_state s) (rem_state s) (loc_diag s))
                            (request_list s))"
    unfolding w2_def notify_requests_events [OF assms(2)] by (simp add: w1_def)
  have "events (bfd_notify_session w p sid) = events w2"
    unfolding bfd_notify_session_def using assms(1)
    by (simp add: Let_def w1_def [symmetric] w2_def [symmetric] split: option.splits)
  then show ?thesis by (simp add: e)
qed

text \<open>A session that goes Up, is taken Down by an AdminDown packet of the peer, and
  whose detection time then expires before the notifier has run: the packet leaves
  the hold timer armed, and \<open>bfd_session_timeout\<close> sets \<open>rem_state\<close> to Down while
  the local state, already Down, and its diagnostic stay as they are.\<close>

lemma hold_timer_frame [simp]:
  "hold_timer (bfd_session_update_tx_interval s) = hold_timer s"
  "hold_timer (bfd_session_control_tx_timer s b now) = hold_timer s"
  "hold_timer (bfd_send_ctl s f) = hold_timer s"
  "hold_timer (bfd_session_request_poll s q now) = hold_timer s"
  "hold_timer (bfd_session_set_min_tx s v now) = hold_timer s"
  "hold_timer (bfd_session_update_state s st dg now) = hold_timer s"
  by (simp_all add: bfd_session_update_tx_interval_def bfd_session_control_tx_timer_def
        bfd_send_ctl_def bfd_session_request_poll_def bfd_session_set_min_tx_def
        bfd_session_update_state_def Let_def)

lemma process_ctl_hold_timer:
  "now \<noteq> 0 \<Longrightarrow> tm_active (hold_timer (bfd_session_process_ctl s flags otx orx now))"
  by (simp add: bfd_session_process_ctl_def Let_def bfd_session_update_detection_time_def
        tm_active_def tm_set_def split: prod.splits)

lemma process_ctl_rem_state:
  "rem_state (bfd_session_process_ctl s flags otx orx now) = rem_state s"
  by (simp add: bfd_session_process_ctl_def Let_def split: prod.splits)

lemma rx_ctl_states:
  "rem_state (bfd_rx_ctl s pkt now) = pkt_state pkt"
  "loc_state (bfd_rx_ctl s pkt now) =
     (if loc_state s = BFD_STATE_ADMIN_DOWN \<or> fst (bfd_next_state (loc_state s) (pkt_state pkt)) = 0
      then loc_state s else fst (bfd_next_state (loc_state s) (pkt_state pkt)))"
  "loc_diag (bfd_rx_ctl s pkt now) =
     (if loc_state s = BFD_STATE_ADMIN_DOWN \<or> fst (bfd_next_state (loc_state s) (pkt_state pkt)) = 0
         \<or> fst (bfd_next_state (loc_state s) (pkt_state pkt)) = loc_state s
      then loc_diag s else snd (bfd_next_state (loc_state s) (pkt_state pkt)))"
  "now \<noteq> 0 \<Longrightarrow> tm_active (hold_timer (bfd_rx_ctl s pkt now))"
  by (simp_all add: bfd_rx_ctl_def Let_def process_ctl_rem_state process_ctl_loc_state
        process_ctl_loc_diag process_ctl_hold_timer)

lemma timeout_states:
  "rem_state (bfd_session_timeout s now) = BFD_STATE_DOWN"
  "loc_diag (bfd_session_timeout s now) =
     (if loc_state s = BFD_STATE_DOWN then loc_diag s else BFD_DIAG_TIMEOUT)"
  by (auto simp add: bfd_session_timeout_def Let_def update_state_loc)

lemma live_session_states:
  "loc_state live_session = BFD_STATE_UP"
  by (simp add: live_session_def peer_packet_def rx_ctl_states new_session_loc_state
        bfd_next_state_def bfd_consts)

lemma shut_session_states:
  "loc_state shut_session = BFD_STATE_DOWN"
  "loc_diag shut_session = BFD_DIAG_NEIGHBOR_DOWN"
  "rem_state shut_session = BFD_STATE_ADMIN_DOWN"
  "tm_active (hold_timer shut_session)"
  by (simp_all add: shut_session_def peer_packet_def rx_ctl_states live_session_states
        bfd_next_state_def bfd_consts)

lemma shut_expired_session_states:
  "loc_state shut_expired_session = BFD_STATE_DOWN"
  "loc_diag shut_expired_session = BFD_DIAG_NEIGHBOR_DOWN"
  "rem_state shut_expired_session = BFD_STATE_DOWN"
  by (simp_all add: shut_expired_session_def bfd_hold_timer_hook_def timeout_loc_state
        timeout_states shut_session_states)

lemma shut_expired_session_reachable: "reachable shut_expired_session"
proof -
  have "reachable live_session"
    unfolding live_session_def by (intro reachable.received reachable.created)
  then have "reachable shut_session"
    unfolding shut_session_def by (rule reachable.received)
  then show ?thesis
    unfolding shut_expired_session_def
    by (rule reachable.expired) (rule shut_session_states(4))
qed

text \<open>C7, as the code has it. \<open>bfd_request_notify\<close> calls the request's hook only when
  the state and diagnostic it is given differ, as a pair, from the ones stored in the
  request, and then it calls the hook the request holds. When the state differs from
  the stored one, the request takes the new state and diagnostic, keeps the previous
  state as \<open>old_state\<close>, and its \<open>down\<close> flag is set exactly when the previous state
  was Up, the new one is Down and the remote state passed in is not AdminDown. When
  the state is the stored one, the request is left as it is and no hook is called.
  The remote state passed in is the one the notifier reads from the session when it
  delivers, together with the local state and the diagnostic: visiting a stored
  session whose request list has no duplicates, \<open>bfd_notify_session\<close> appends to the
  log exactly the deliveries of its requests computed from the session's
  \<open>loc_state\<close>, \<open>rem_state\<close> and \<open>loc_diag\<close> as they are at that moment, not as
  they were when the local state changed.\<close>

theorem request_notify_contract:
  "(snd (bfd_request_notify req st remote dg) \<noteq> None \<longrightarrow>
      (st, dg) \<noteq> (state req, diag req) \<and>
      snd (bfd_request_notify req st remote dg) = hook req) \<and>
   (st \<noteq> state req \<longrightarrow>
      state (fst (bfd_request_notify req st remote dg)) = st \<and>
      diag (fst (bfd_request_notify req st remote dg)) = dg \<and>
      old_state (fst (bfd_request_notify req st remote dg)) = state req \<and>
      (down (fst (bfd_request_notify req st remote dg)) \<longleftrightarrow>
         state req = BFD_STATE_UP \<and> st = BFD_STATE_DOWN \<and> remote \<noteq> BFD_STATE_ADMIN_DOWN)) \<and>
   (st = state req \<longrightarrow>
      bfd_request_notify req st remote dg = (req, None)) \<and>
   (sessions w sid = Some s \<and> distinct (request_list s) \<longrightarrow>
      events (bfd_notify_session w p sid) =
        events w @ concat (map (\<lambda>k. case requests w k of None \<Rightarrow> []
                                     | Some rk \<Rightarrow> delivery k rk (loc_state s) (rem_state s) (loc_diag s))
                               (request_list s)))"
  using notify_session_events [of w sid s p]
  by (simp add: bfd_request_notify_def Let_def)

theorem request_notify_contract_witness:
  "snd (bfd_request_notify up_request BFD_STATE_DOWN BFD_STATE_DOWN BFD_DIAG_TIMEOUT) = Some Hook_observe \<and>
   BFD_STATE_DOWN \<noteq> state up_request \<and>
   state (fst (bfd_request_notify up_request BFD_STATE_DOWN BFD_STATE_DOWN BFD_DIAG_TIMEOUT)) = BFD_STATE_DOWN \<and>
   down (fst (bfd_request_notify up_request BFD_STATE_DOWN BFD_STATE_DOWN BFD_DIAG_TIMEOUT)) \<and>
   \<not> down (fst (bfd_request_notify up_request BFD_STATE_DOWN BFD_STATE_ADMIN_DOWN BFD_DIAG_NEIGHBOR_DOWN)) \<and>
   bfd_request_notify up_request BFD_STATE_UP BFD_STATE_UP BFD_DIAG_TIMEOUT = (up_request, None) \<and>
   sessions releasing_world 0 = Some releasing_session \<and> distinct (request_list releasing_session) \<and>
   events (bfd_notify_session releasing_world 0 0) =
     [Hook_called 0 BFD_STATE_UP 0 BFD_STATE_DOWN False]"
proof -
  have h: "BFD_STATE_DOWN \<noteq> state up_request" "state up_request = BFD_STATE_UP"
    "hook up_request = Some Hook_observe"
    by (simp_all add: up_request_def bfd_consts)
  have c: "snd (bfd_request_notify up_request BFD_STATE_DOWN BFD_STATE_DOWN BFD_DIAG_TIMEOUT) \<noteq> None"
    by (simp add: bfd_request_notify_def Let_def h bfd_consts)
  have r: "sessions releasing_world 0 = Some releasing_session"
    "distinct (request_list releasing_session)"
    "request_list releasing_session = [0]"
    "requests releasing_world 0 = Some releasing_request"
    "events releasing_world = []"
    "loc_state releasing_session = BFD_STATE_UP" "rem_state releasing_session = BFD_STATE_UP"
    "loc_diag releasing_session = 0"
    "delivery 0 releasing_request BFD_STATE_UP BFD_STATE_UP 0 =
       [Hook_called 0 BFD_STATE_UP 0 BFD_STATE_DOWN False]"
    by (simp_all add: releasing_world_def releasing_session_def releasing_request_def
          new_request_def up_session_def delivery_def bfd_consts bfd_new_session_def Let_def)
  have e: "events (bfd_notify_session releasing_world 0 0) =
             [Hook_called 0 BFD_STATE_UP 0 BFD_STATE_DOWN False]"
    using r request_notify_contract [where w = releasing_world and sid = 0 and s = releasing_session
                                           and p = 0]
    by simp
  show ?thesis
    using h c e r(1,2)
      request_notify_contract [of up_request BFD_STATE_DOWN BFD_STATE_DOWN BFD_DIAG_TIMEOUT]
      request_notify_contract [of up_request BFD_STATE_DOWN BFD_STATE_ADMIN_DOWN BFD_DIAG_NEIGHBOR_DOWN]
      request_notify_contract [of up_request BFD_STATE_UP BFD_STATE_UP BFD_DIAG_TIMEOUT]
    by (simp add: bfd_consts)
qed

text \<open>The remote state at the time of the transition is not what decides the flag. The
  session \<open>shut_expired_session\<close> is reachable: it went Up, an AdminDown packet took it
  Down with diagnostic NeighborDown and remote state AdminDown, and the detection
  time expired before the notifier ran, leaving state and diagnostic as they were and
  the remote state Down. A request that was last told Up is then told Down with
  \<open>down\<close> true, although the remote state was AdminDown when the session went
  Down.\<close>

theorem down_after_admin_down_counterexample:
  "reachable shut_expired_session \<and>
   loc_state live_session = BFD_STATE_UP \<and>
   loc_state shut_session = BFD_STATE_DOWN \<and>
   loc_diag shut_session = BFD_DIAG_NEIGHBOR_DOWN \<and>
   rem_state shut_session = BFD_STATE_ADMIN_DOWN \<and>
   loc_state shut_expired_session = BFD_STATE_DOWN \<and>
   loc_diag shut_expired_session = BFD_DIAG_NEIGHBOR_DOWN \<and>
   rem_state shut_expired_session = BFD_STATE_DOWN \<and>
   events (bfd_notify_session shut_world 0 0) =
     [Hook_called 0 BFD_STATE_DOWN BFD_DIAG_NEIGHBOR_DOWN BFD_STATE_UP True]"
proof -
  have w: "sessions shut_world 0 = Some (shut_expired_session\<lparr>request_list := [0]\<rparr>)"
    "requests shut_world 0 = Some (up_request\<lparr>session := Some 0\<rparr>)"
    "events shut_world = []"
    by (simp_all add: shut_world_def)
  have d: "delivery 0 (up_request\<lparr>session := Some 0\<rparr>) BFD_STATE_DOWN BFD_STATE_DOWN
             BFD_DIAG_NEIGHBOR_DOWN =
           [Hook_called 0 BFD_STATE_DOWN BFD_DIAG_NEIGHBOR_DOWN BFD_STATE_UP True]"
    by (simp add: delivery_def up_request_def bfd_consts)
  have e: "events (bfd_notify_session shut_world 0 0) =
     [Hook_called 0 BFD_STATE_DOWN BFD_DIAG_NEIGHBOR_DOWN BFD_STATE_UP True]"
    using notify_session_events [OF w(1), of 0]
    by (simp add: w shut_expired_session_states d)
  show ?thesis
    using e shut_expired_session_reachable live_session_states shut_session_states(1-3)
      shut_expired_session_states
    by simp
qed

end
